theory Spec2Isabelle
  imports Main "HOL-Library.AList" "HOL-Library.Sublist"
begin

section \<open>JavaScript strings\<close>

text \<open>
  Strings are lists of characters. Only the ASCII range is modelled: \<open>toLowerCase\<close>
  maps \<open>A..Z\<close> to \<open>a..z\<close> (code + 32: bit 5 of the code is set) and leaves every other
  character alone, and \<open>trim\<close> strips
  the ASCII white space (space, tab, line feed, vertical tab, form feed, carriage return).
\<close>

definition toLowerCase_char :: "char \<Rightarrow> char" where
  "toLowerCase_char c =
     (let n = (of_char c :: nat) in
      if 65 \<le> n \<and> n \<le> 90
      then (case c of Char b0 b1 b2 b3 b4 b5 b6 b7 \<Rightarrow> Char b0 b1 b2 b3 b4 True b6 b7)
      else c)"

definition toLowerCase :: "string \<Rightarrow> string" where
  "toLowerCase s = map toLowerCase_char s"

definition isWhiteSpace :: "char \<Rightarrow> bool" where
  "isWhiteSpace c = ((of_char c :: nat) \<in> {9, 10, 11, 12, 13, 32})"

definition trim :: "string \<Rightarrow> string" where
  "trim s = rev (dropWhile isWhiteSpace (rev (dropWhile isWhiteSpace s)))"

text \<open>\<open>s.replace(/ /g, '')\<close>: every space removed.\<close>

definition removeSpaces :: "string \<Rightarrow> string" where
  "removeSpaces s = filter (\<lambda>c. c \<noteq> CHR '' '') s"

text \<open>
  \<open>s.split(d)\<close> for a one-character separator: the pieces between the separators, the
  empty ones too; a string without the separator is one piece.
\<close>

fun split :: "char \<Rightarrow> string \<Rightarrow> string list" where
  "split d [] = [[]]"
| "split d (c # cs) =
     (if c = d then [] # split d cs
      else (case split d cs of
              w # ws \<Rightarrow> (c # w) # ws
            | [] \<Rightarrow> [[c]]))"

text \<open>\<open>parts.join(d)\<close>: array join with a one-character separator.\<close>

fun joinWith :: "char \<Rightarrow> string list \<Rightarrow> string" where
  "joinWith d [] = []"
| "joinWith d [p] = p"
| "joinWith d (p # q # ps) = p @ d # joinWith d (q # ps)"

section \<open>JavaScript values and plain objects\<close>

text \<open>
  A value read where the code expects an \<open>'a\<close>: \<open>undefined\<close>, a value of that type, or
  something else (\<open>Alien\<close>, with a word for what it is): a member inherited from
  \<open>Object.prototype\<close>, or the number or boolean an XML parser made of a text. An
  \<open>Alien\<close> is truthy and has none of the properties and methods the code reads.
\<close>

datatype 'a js = Undefined | Value 'a | Alien string

text \<open>
  \<open>obj[key]\<close> on a plain object, as the registry tables are (parsed JSON): the own
  property, else the member of \<open>Object.prototype\<close> of that name, else \<open>undefined\<close>.
\<close>

definition objectPrototype :: "string list" where
  "objectPrototype =
     [''constructor'', ''__defineGetter__'', ''__defineSetter__'', ''hasOwnProperty'',
      ''__lookupGetter__'', ''__lookupSetter__'', ''isPrototypeOf'', ''propertyIsEnumerable'',
      ''toString'', ''valueOf'', ''__proto__'', ''toLocaleString'']"

definition getProp :: "(string \<times> 'a) list \<Rightarrow> string \<Rightarrow> 'a js" where
  "getProp obj key =
     (case map_of obj key of
        Some v \<Rightarrow> Value v
      | None \<Rightarrow> if key \<in> set objectPrototype then Alien key else Undefined)"

text \<open>\<open>!v\<close> for a value that should be a string: \<open>undefined\<close> and the empty string are falsy.\<close>

definition falsy :: "string js \<Rightarrow> bool" where
  "falsy v = (v = Undefined \<or> v = Value [])"

section \<open>Errors\<close>

text \<open>
  Every \<open>throw\<close> of the sources is a value: the three errors the resolver raises by name,
  the \<open>Error\<close> the remote listing raises for an unknown path, and the runtime's
  \<open>TypeError\<close> for a property read or a destructuring of \<open>undefined\<close>.
\<close>

datatype error =
    error_path_not_found string
  | error_could_not_infer_type string
  | error_missing_type_definition string
  | Error string
  | TypeError

section \<open>The registry\<close>

type_synonym SourcePath = string

record MetadataType =
  type_id :: string
  type_name :: string
  directoryName :: string
  inFolder :: bool
  folderType :: "string option"
  folderContentType :: "string option"

text \<open>
  The registry data. Each table is a plain object: the association list of its own
  properties in the order \<open>Object.keys\<close> enumerates them, read with \<open>getProp\<close>.
\<close>

record MetadataRegistry =
  types :: "(string \<times> MetadataType) list"
  suffixes :: "(string \<times> string) list"
  mixedContent :: "(string \<times> string) list"
  adapters :: "(string \<times> string) list"
  apiVersion :: string

text \<open>
  \<open>RegistryAccess.getTypeFromName\<close>: \<open>this.data.types[lower]\<close> for the name in lower
  case without spaces; a falsy result raises the missing-type-definition error, anything
  else is returned, an inherited member too. A name that is no string has no
  \<open>toLowerCase\<close>: a \<open>TypeError\<close>.
\<close>

definition getTypeFromName :: "MetadataRegistry \<Rightarrow> string js \<Rightarrow> error + MetadataType js" where
  "getTypeFromName reg nm =
     (case nm of
        Value s \<Rightarrow>
          (let lower = removeSpaces (toLowerCase s) in
           case getProp (types reg) lower of
             Undefined \<Rightarrow> Inl (error_missing_type_definition lower)
           | Value t \<Rightarrow> Inr (Value t)
           | Alien member \<Rightarrow> Inr (Alien member))
      | Undefined \<Rightarrow> Inl TypeError
      | Alien member \<Rightarrow> Inl TypeError)"

text \<open>
  \<open>type.inFolder\<close> and \<open>type.directoryName\<close> of what \<open>getTypeFromName\<close> returned:
  \<open>undefined\<close> on anything that is no registry type.
\<close>

definition type_inFolder :: "MetadataType js \<Rightarrow> bool" where
  "type_inFolder type = (case type of Value t \<Rightarrow> inFolder t | _ \<Rightarrow> False)"

definition type_directoryName :: "MetadataType js \<Rightarrow> string js" where
  "type_directoryName type = (case type of Value t \<Rightarrow> Value (directoryName t) | _ \<Rightarrow> Undefined)"

text \<open>
  Modelled from the spec: \<open>RegistryAccess.getTypeByName\<close>, which the component set
  calls, is not among the sources (they hold the resolver's \<open>getTypeFromName\<close>). The
  spec's error taxonomy gives its contract: a type lookup by name, and the
  missing-type-definition error when the name finds no registry entry (an inherited
  member of the table object is no registry entry). The table is keyed by lower-case
  identifier, so the name is put in lower case first.
\<close>

definition getTypeByName :: "MetadataRegistry \<Rightarrow> string \<Rightarrow> error + MetadataType" where
  "getTypeByName reg nm =
     (let lower = toLowerCase nm in
      case map_of (types reg) lower of
        None \<Rightarrow> Inl (error_missing_type_definition lower)
      | Some t \<Rightarrow> Inr t)"

section \<open>Components\<close>

text \<open>
  A \<open>SourceComponent\<close>: full name, type, optional descriptor path, optional content
  path, optional parent. Its tree container only serves \<open>getChildren\<close>, which the
  operations below take as a function.
\<close>

datatype SourceComponent =
  SourceComponent
    (sc_fullName: string)
    (sc_type: MetadataType)
    (sc_xml: "SourcePath option")
    (sc_content: "SourcePath option")
    (sc_parent: "SourceComponent option")

text \<open>
  \<open>ComponentLike\<close>: a plain object \<open>{fullName, type}\<close> whose type is a type name
  (a manifest member) or a registry type (an abstract metadata component), or an instance
  of \<open>SourceComponent\<close>.
\<close>

datatype TypeRef = TypeString string | TypeObject MetadataType

datatype ComponentLike = Plain string TypeRef | Source SourceComponent

text \<open>
  What iteration and manifest parsing yield: a source component, or an object
  \<open>{fullName, type}\<close>. Its \<open>fullName\<close> is \<open>undefined\<close> when a key has no second field
  or a manifest block no member, and no string when the XML parser read the member as a
  number or boolean.
\<close>

datatype MetadataComponent =
    AbstractComponent "string js" MetadataType
  | SourceBacked SourceComponent

section \<open>ComponentSet\<close>

text \<open>
  \<open>components: Map<string, Map<string, SourceComponent>>\<close>. A JavaScript \<open>Map\<close>
  iterates in insertion order and \<open>set\<close> on a present key keeps the key's place:
  an association list under \<open>AList.update\<close>.
\<close>

type_synonym SourceMap = "(string \<times> SourceComponent) list"
type_synonym ComponentMap = "(string \<times> SourceMap) list"

definition WILDCARD :: string where
  "WILDCARD = ''*''"

definition KEY_DELIMITER :: char where
  "KEY_DELIMITER = CHR ''#''"

definition sourceKey :: "SourceComponent \<Rightarrow> string" where
  "sourceKey component =
     type_name (sc_type component) @ sc_fullName component
       @ (case sc_xml component of None \<Rightarrow> [] | Some x \<Rightarrow> x)
       @ (case sc_content component of None \<Rightarrow> [] | Some c \<Rightarrow> c)"

definition simpleKey :: "ComponentLike \<Rightarrow> string" where
  "simpleKey component =
     (case component of
        Plain fullName (TypeString s) \<Rightarrow> trim (toLowerCase s) @ KEY_DELIMITER # fullName
      | Plain fullName (TypeObject t) \<Rightarrow> type_id t @ KEY_DELIMITER # fullName
      | Source sc \<Rightarrow> type_id (sc_type sc) @ KEY_DELIMITER # sc_fullName sc)"

text \<open>
  \<open>add\<close>: the outer key is created with an empty inner map when it is new; a source
  component is then set in the inner map under its source key. (The inner map is always
  there at that point; the \<open>None\<close> branch is dead.)
\<close>

definition add :: "ComponentLike \<Rightarrow> ComponentMap \<Rightarrow> ComponentMap" where
  "add component components =
     (let key = simpleKey component;
          components1 = (if map_of components key = None
                         then AList.update key [] components else components)
      in case component of
           Source sc \<Rightarrow>
             (case map_of components1 key of
                Some inner \<Rightarrow> AList.update key (AList.update (sourceKey sc) sc inner) components1
              | None \<Rightarrow> components1)
         | Plain fullName t \<Rightarrow> components1)"

definition has :: "ComponentMap \<Rightarrow> ComponentLike \<Rightarrow> bool" where
  "has components component = (map_of components (simpleKey component) \<noteq> None)"

text \<open>\<open>get size\<close>: an empty inner map counts 1, any other counts its own size.\<close>

definition size_of :: "ComponentMap \<Rightarrow> nat" where
  "size_of components =
     foldl (\<lambda>size collection. size + (if length collection = 0 then 1 else length collection))
       0 (map snd components)"

text \<open>
  \<open>const [typeName, fullName] = key.split('#')\<close>: the first two fields of the key; the
  second is \<open>undefined\<close> when the key has one field only.
\<close>

definition keyFields :: "string \<Rightarrow> string \<times> string js" where
  "keyFields key =
     (case split KEY_DELIMITER key of
        typeName # fullName # rest \<Rightarrow> (typeName, Value fullName)
      | [typeName] \<Rightarrow> (typeName, Undefined)
      | [] \<Rightarrow> ([], Undefined))"

text \<open>
  \<open>[Symbol.iterator]\<close>, run to its end: the list of everything yielded, or the error
  \<open>getTypeByName\<close> raises on the way.
\<close>

fun iterate :: "MetadataRegistry \<Rightarrow> ComponentMap \<Rightarrow> error + MetadataComponent list" where
  "iterate reg [] = Inr []"
| "iterate reg ((key, sourceComponents) # rest) =
     (if length sourceComponents = 0 then
        (case keyFields key of (typeName, fullName) \<Rightarrow>
           (case getTypeByName reg typeName of
              Inl e \<Rightarrow> Inl e
            | Inr t \<Rightarrow>
                (case iterate reg rest of
                   Inl e \<Rightarrow> Inl e
                 | Inr ys \<Rightarrow> Inr (AbstractComponent fullName t # ys))))
      else
        (case iterate reg rest of
           Inl e \<Rightarrow> Inl e
         | Inr ys \<Rightarrow> Inr (map (SourceBacked \<circ> snd) sourceComponents @ ys)))"

text \<open>The constructor: every component of the iterable is added to an empty map.\<close>

definition ComponentSet :: "ComponentLike list \<Rightarrow> ComponentMap" where
  "ComponentSet cs = foldl (\<lambda>m c. add c m) [] cs"


section \<open>Paths\<close>

text \<open>
  The functions of Node's \<open>path\<close> module the sources call, in their POSIX form:
  \<open>sep\<close>, \<open>dirname\<close>, \<open>basename\<close> and the two-argument \<open>join\<close> (which
  normalises its result: empty and \<open>.\<close> segments go, \<open>..\<close> removes the segment before it).
\<close>

definition sep :: char where
  "sep = CHR ''/''"

definition dirname :: "SourcePath \<Rightarrow> SourcePath" where
  "dirname path =
     (if path = [] then ''.''
      else
        (let hasRoot = (hd path = sep);
             r = dropWhile (\<lambda>c. c \<noteq> sep) (dropWhile (\<lambda>c. c = sep) (rev (tl path)))
         in if r = [] then (if hasRoot then ''/'' else ''.'')
            else if hasRoot \<and> length r = 1 then ''//''
            else take (length r) path))"

definition basename :: "SourcePath \<Rightarrow> string" where
  "basename path = rev (takeWhile (\<lambda>c. c \<noteq> sep) (dropWhile (\<lambda>c. c = sep) (rev path)))"

fun normalizeString :: "bool \<Rightarrow> string list \<Rightarrow> string list \<Rightarrow> string list" where
  "normalizeString allowAboveRoot [] res = rev res"
| "normalizeString allowAboveRoot (s # ss) res =
     (if s = [] \<or> s = ''.'' then normalizeString allowAboveRoot ss res
      else if s = ''..'' then
        (case res of
           [] \<Rightarrow> normalizeString allowAboveRoot ss (if allowAboveRoot then [''..''] else [])
         | r # rs \<Rightarrow>
             if r = ''..''
             then normalizeString allowAboveRoot ss (if allowAboveRoot then ''..'' # res else res)
             else normalizeString allowAboveRoot ss rs)
      else normalizeString allowAboveRoot ss (s # res))"

definition normalize :: "SourcePath \<Rightarrow> SourcePath" where
  "normalize path =
     (if path = [] then ''.''
      else
        (let isAbsolute = (hd path = sep);
             trailingSeparator = (last path = sep);
             p = joinWith sep (normalizeString (\<not> isAbsolute) (split sep path) [])
         in if p = [] then (if isAbsolute then ''/'' else if trailingSeparator then ''./'' else ''.'')
            else (let p' = (if trailingSeparator then p @ [sep] else p)
                  in if isAbsolute then sep # p' else p')))"

definition join :: "SourcePath \<Rightarrow> SourcePath \<Rightarrow> SourcePath" where
  "join a b =
     (let joined = (if a = [] then b else if b = [] then a else a @ sep # b)
      in if joined = [] then ''.'' else normalize joined)"

text \<open>
  The helpers of \<open>utils/path\<close> and \<open>utils/registry\<close> are not among the sources, so the
  operations take them as a record of functions: \<open>parseMetadataXml\<close> (the parts of a
  descriptor path, \<open>None\<close> for any other path), \<open>extName\<close>, \<open>parentName\<close> and
  \<open>baseName\<close>.
\<close>

record MetadataXml =
  xml_fullName :: string
  xml_suffix :: string
  xml_path :: SourcePath

record Utils =
  parseMetadataXml :: "SourcePath \<Rightarrow> MetadataXml option"
  extName :: "SourcePath \<Rightarrow> string"
  parentName :: "SourcePath \<Rightarrow> string"
  baseName :: "SourcePath \<Rightarrow> string"

section \<open>File containers\<close>

text \<open>
  The local file system, as \<open>fs\<close> sees it: what each path names, if anything. A
  directory carries the names \<open>readdirSync\<close> lists.
\<close>

datatype FsNode = FileNode | DirNode "string list"

type_synonym FileSystem = "SourcePath \<Rightarrow> FsNode option"

text \<open>
  \<open>GithubFileContainer.tree: Map<SourcePath, Set<SourcePath>>\<close>, in insertion order.
\<close>

type_synonym GithubTree = "(SourcePath \<times> SourcePath list) list"

datatype FileContainer = LocalFileContainer FileSystem | GithubFileContainer GithubTree

text \<open>
  \<open>exists\<close>. The remote listing reads \<open>this.tree.get(dirname(path)).has(path)\<close>: when
  the parent directory is no key of the tree, \<open>get\<close> is \<open>undefined\<close> and the call of
  \<open>has\<close> on it is a \<open>TypeError\<close>.
\<close>

definition exists :: "FileContainer \<Rightarrow> SourcePath \<Rightarrow> error + bool" where
  "exists container path =
     (case container of
        LocalFileContainer fs \<Rightarrow> Inr (fs path \<noteq> None)
      | GithubFileContainer tree \<Rightarrow>
          (case map_of tree (dirname path) of
             None \<Rightarrow> Inl TypeError
           | Some entries \<Rightarrow> Inr (path \<in> set entries \<or> map_of tree path \<noteq> None)))"

definition isDirectory :: "FileContainer \<Rightarrow> SourcePath \<Rightarrow> error + bool" where
  "isDirectory container path =
     (case container of
        LocalFileContainer fs \<Rightarrow>
          (case fs path of
             None \<Rightarrow> Inl (Error ''ENOENT'')
           | Some FileNode \<Rightarrow> Inr False
           | Some (DirNode names) \<Rightarrow> Inr True)
      | GithubFileContainer tree \<Rightarrow>
          (case exists container path of
             Inl e \<Rightarrow> Inl e
           | Inr True \<Rightarrow> Inr (map_of tree path \<noteq> None)
           | Inr False \<Rightarrow> Inl (Error (path @ '' does not exist''))))"

definition readDir :: "FileContainer \<Rightarrow> SourcePath \<Rightarrow> error + string list" where
  "readDir container path =
     (case container of
        LocalFileContainer fs \<Rightarrow>
          (case fs path of
             None \<Rightarrow> Inl (Error ''ENOENT'')
           | Some FileNode \<Rightarrow> Inl (Error ''ENOTDIR'')
           | Some (DirNode names) \<Rightarrow> Inr names)
      | GithubFileContainer tree \<Rightarrow>
          (case map_of tree path of
             None \<Rightarrow> Inl TypeError
           | Some entries \<Rightarrow> Inr (map basename entries)))"

text \<open>
  \<open>BaseFileContainer.find\<close>: the first name of the directory that starts with
  \<open>fullName\<close> and is (or is not) a descriptor; an empty name found is falsy and gives
  \<open>undefined\<close>.
\<close>

definition find_in :: "Utils \<Rightarrow> FileContainer \<Rightarrow> SourcePath \<Rightarrow> string \<Rightarrow> bool
    \<Rightarrow> error + SourcePath option" where
  "find_in U container dir fullName findMetadataXml =
     (case readDir container dir of
        Inl e \<Rightarrow> Inl e
      | Inr names \<Rightarrow>
          (case List.find (\<lambda>f.
                  let parsed = parseMetadataXml U (join dir f);
                      metaXmlCondition = (if findMetadataXml then parsed \<noteq> None else parsed = None)
                  in prefix fullName f \<and> metaXmlCondition) names of
             None \<Rightarrow> Inr None
           | Some fileName \<Rightarrow> if fileName \<noteq> [] then Inr (Some (join dir fileName)) else Inr None))"

definition findContent :: "Utils \<Rightarrow> FileContainer \<Rightarrow> SourcePath \<Rightarrow> string
    \<Rightarrow> error + SourcePath option" where
  "findContent U container dir fullName = find_in U container dir fullName False"

definition findMetadataXml :: "Utils \<Rightarrow> FileContainer \<Rightarrow> SourcePath \<Rightarrow> string
    \<Rightarrow> error + SourcePath option" where
  "findMetadataXml U container dir fullName = find_in U container dir fullName True"

text \<open>\<open>parts.findIndex(test)\<close>: the first index that passes the test, or \<open>-1\<close>.\<close>

fun findIndex :: "('a \<Rightarrow> bool) \<Rightarrow> 'a list \<Rightarrow> int" where
  "findIndex test [] = -1"
| "findIndex test (p # ps) =
     (if test p then 0 else (let i = findIndex test ps in if i < 0 then -1 else i + 1))"

text \<open>\<open>parts.slice(0, k)\<close>; a negative \<open>k\<close> counts from the end.\<close>

definition slice0 :: "string list \<Rightarrow> int \<Rightarrow> string list" where
  "slice0 parts k =
     (if 0 \<le> k then take (nat k) parts else take (length parts - nat (- k)) parts)"

text \<open>
  \<open>findXmlFromContentPath\<close>. The type is what the caller got from
  \<open>getTypeFromName\<close>; \<open>part === type.directoryName\<close> compares a string with a string or
  with \<open>undefined\<close>.
\<close>

definition findXmlFromContentPath :: "Utils \<Rightarrow> FileContainer \<Rightarrow> SourcePath \<Rightarrow> MetadataType js
    \<Rightarrow> error + SourcePath option" where
  "findXmlFromContentPath U container contentPath type =
     (let pathParts = split sep contentPath;
          typeFolderIndex = findIndex (\<lambda>part. Value part = type_directoryName type) pathParts;
          offset = (if type_inFolder type then 3 else 2);
          rootContentPath = joinWith sep (slice0 pathParts (typeFolderIndex + offset));
          rootTypeDirectory = dirname rootContentPath;
          contentFullName = baseName U rootContentPath
      in findMetadataXml U container rootTypeDirectory contentFullName)"


section \<open>RegistryAccess: resolving components from paths\<close>

text \<open>
  What a \<open>RegistryAccess\<close> works with: the registry data, the file container, the
  path helpers, and two collaborators that are not among the sources and are taken as
  functions: \<open>ForceIgnore.findAndCreate\<close> (for a seed path, the \<open>denies\<close> test of the
  ignore rules found) and the adapters (\<open>getAdapter(type, adapterId, container,
  forceIgnore).getComponent(path)\<close>: a component, \<open>undefined\<close>, or an error).
\<close>

record Env =
  data :: MetadataRegistry
  fileContainer :: FileContainer
  utils :: Utils
  findAndCreate :: "SourcePath \<Rightarrow> SourcePath \<Rightarrow> bool"
  getComponent :: "MetadataType js \<Rightarrow> string js \<Rightarrow> (SourcePath \<Rightarrow> bool) \<Rightarrow> SourcePath
      \<Rightarrow> error + SourceComponent option"

text \<open>
  Attempt 1 of \<open>determineTypeId\<close>: the loop over the mixed-content directory names, left
  at the first name that is a segment of the path.
\<close>

fun mixedContentLoop :: "Env \<Rightarrow> SourcePath \<Rightarrow> string list \<Rightarrow> (string \<times> string) list
    \<Rightarrow> error + string js" where
  "mixedContentLoop E fsPath pathParts [] = Inr Undefined"
| "mixedContentLoop E fsPath pathParts ((dirName, typeId) # rest) =
     (if dirName \<in> set pathParts then
        (case getTypeFromName (data E) (Value typeId) of
           Inl e \<Rightarrow> Inl e
         | Inr type \<Rightarrow>
             (let isFolderType = type_inFolder type
              in if isFolderType \<and> parentName (utils E) fsPath = dirName
                 then Inr Undefined else Inr (Value typeId)))
      else mixedContentLoop E fsPath pathParts rest)"

text \<open>
  \<open>determineTypeId\<close>. Attempts 2 and 3 read \<open>this.data.suffixes[...]\<close>: what comes back
  is a type id, \<open>undefined\<close>, or an inherited member of the table object.
\<close>

definition determineTypeId :: "Env \<Rightarrow> SourcePath \<Rightarrow> error + string js" where
  "determineTypeId E fsPath =
     (case mixedContentLoop E fsPath (split sep fsPath) (mixedContent (data E)) of
        Inl e \<Rightarrow> Inl e
      | Inr typeId1 \<Rightarrow>
          (let typeId2 =
                 (if falsy typeId1 then
                    (case parseMetadataXml (utils E) fsPath of
                       Some parsedMetaXml \<Rightarrow> getProp (suffixes (data E)) (xml_suffix parsedMetaXml)
                     | None \<Rightarrow> typeId1)
                  else typeId1);
               typeId3 =
                 (if falsy typeId2 then getProp (suffixes (data E)) (extName (utils E) fsPath)
                  else typeId2)
           in Inr typeId3))"

text \<open>
  \<open>fetchComponent\<close>, with \<open>this.forceIgnore\<close> passed as \<open>forceIgnore\<close>: \<open>None\<close> is the
  bare \<open>return\<close> for a denied descriptor. \<open>this.data.adapters[typeId]\<close> is read before
  \<open>getTypeFromName\<close> is called; a type id that is no string is no key of the table.
\<close>

definition fetchComponent :: "Env \<Rightarrow> (SourcePath \<Rightarrow> bool) \<Rightarrow> SourcePath
    \<Rightarrow> error + SourceComponent option" where
  "fetchComponent E forceIgnore fsPath =
     (if parseMetadataXml (utils E) fsPath \<noteq> None \<and> forceIgnore fsPath then Inr None
      else
        (case determineTypeId E fsPath of
           Inl e \<Rightarrow> Inl e
         | Inr typeId \<Rightarrow>
             if \<not> falsy typeId then
               (let adapterId =
                      (case typeId of
                         Value tid \<Rightarrow> getProp (adapters (data E)) tid
                       | _ \<Rightarrow> Undefined)
                in case getTypeFromName (data E) typeId of
                     Inl e \<Rightarrow> Inl e
                   | Inr type \<Rightarrow> getComponent E type adapterId forceIgnore fsPath)
             else Inl (error_could_not_infer_type fsPath)))"

text \<open>
  The \<open>for\<close> loop over the files of a directory in \<open>getComponentsFromPathRecursive\<close>.
  It ends by the \<open>return\<close> inside it (\<open>Stopped\<close>, with the components so far) or by
  running out of files (\<open>Finished\<close>, with the queued directories and the components).
\<close>

datatype scan = Stopped "SourceComponent list" | Finished "SourcePath list" "SourceComponent list"

fun scanFiles :: "Env \<Rightarrow> (SourcePath \<Rightarrow> bool) \<Rightarrow> SourcePath \<Rightarrow> string list
    \<Rightarrow> SourcePath list \<Rightarrow> SourceComponent list \<Rightarrow> error + scan" where
  "scanFiles E forceIgnore directory [] dirQueue components = Inr (Finished dirQueue components)"
| "scanFiles E forceIgnore directory (file # files) dirQueue components =
     (let path = join directory file
      in case isDirectory (fileContainer E) path of
           Inl e \<Rightarrow> Inl e
         | Inr True \<Rightarrow> scanFiles E forceIgnore directory files (dirQueue @ [path]) components
         | Inr False \<Rightarrow>
             if parseMetadataXml (utils E) path \<noteq> None then
               (case fetchComponent E forceIgnore path of
                  Inl e \<Rightarrow> Inl e
                | Inr None \<Rightarrow> scanFiles E forceIgnore directory files dirQueue components
                | Inr (Some component) \<Rightarrow>
                    (let components1 = components @ [component];
                         isMixedContent =
                           \<not> falsy (getProp (mixedContent (data E))
                                      (directoryName (sc_type component)));
                         typeDir = basename (dirname
                                     (if inFolder (sc_type component) then dirname path else path))
                     in if isMixedContent \<and> typeDir \<noteq> directoryName (sc_type component)
                        then Inr (Stopped components1)
                        else scanFiles E forceIgnore directory files dirQueue components1))
             else scanFiles E forceIgnore directory files dirQueue components)"

text \<open>
  \<open>getComponentsFromPathRecursive\<close>. The recursion follows the directories the
  container lists, so it carries fuel, the depth it may still descend: \<open>None\<close> is a walk
  that did not return within it. \<open>recurseDirQueue\<close> is the closing loop over
  \<open>dirQueue\<close>.
\<close>

fun getComponentsFromPathRecursive :: "nat \<Rightarrow> Env \<Rightarrow> (SourcePath \<Rightarrow> bool) \<Rightarrow> SourcePath
    \<Rightarrow> (error + SourceComponent list) option"
and recurseDirQueue :: "nat \<Rightarrow> Env \<Rightarrow> (SourcePath \<Rightarrow> bool) \<Rightarrow> SourcePath list
    \<Rightarrow> SourceComponent list \<Rightarrow> (error + SourceComponent list) option" where
  "getComponentsFromPathRecursive 0 E forceIgnore directory = None"
| "getComponentsFromPathRecursive (Suc n) E forceIgnore directory =
     (if forceIgnore directory then Some (Inr [])
      else
        (case readDir (fileContainer E) directory of
           Inl e \<Rightarrow> Some (Inl e)
         | Inr files \<Rightarrow>
             (case scanFiles E forceIgnore directory files [] [] of
                Inl e \<Rightarrow> Some (Inl e)
              | Inr (Stopped components) \<Rightarrow> Some (Inr components)
              | Inr (Finished dirQueue components) \<Rightarrow>
                  recurseDirQueue n E forceIgnore dirQueue components)))"
| "recurseDirQueue n E forceIgnore [] components = Some (Inr components)"
| "recurseDirQueue n E forceIgnore (dir # dirs) components =
     (case getComponentsFromPathRecursive n E forceIgnore dir of
        None \<Rightarrow> None
      | Some (Inl e) \<Rightarrow> Some (Inl e)
      | Some (Inr found) \<Rightarrow> recurseDirQueue n E forceIgnore dirs (components @ found))"

text \<open>
  The path \<open>getComponentsFromPath\<close> fetches for a directory: the directory itself, or
  the descriptor of the mixed-content component the directory lies in.
  \<open>parts[parts.length - folderOffset]\<close> is \<open>undefined\<close> when the index is negative, and
  \<open>!==\<close> compares it with the type's directory name, a string or \<open>undefined\<close>.
\<close>

definition pathForFetch :: "Env \<Rightarrow> SourcePath \<Rightarrow> error + SourcePath" where
  "pathForFetch E fsPath =
     (case determineTypeId E fsPath of
        Inl e \<Rightarrow> Inl e
      | Inr typeId \<Rightarrow>
          if \<not> falsy typeId then
            (case getTypeFromName (data E) typeId of
               Inl e \<Rightarrow> Inl e
             | Inr type \<Rightarrow>
                 (let parts = split sep fsPath;
                      folderOffset = (if type_inFolder type then 2 else 1);
                      part = (if length parts < folderOffset then Undefined
                              else Value (parts ! (length parts - folderOffset)))
                  in if part \<noteq> type_directoryName type
                     then
                       (case findXmlFromContentPath (utils E) (fileContainer E) fsPath type of
                          Inl e \<Rightarrow> Inl e
                        | Inr None \<Rightarrow> Inr fsPath
                        | Inr (Some xml) \<Rightarrow> Inr (if xml = [] then fsPath else xml))
                     else Inr fsPath))
          else Inr fsPath)"

definition fetchList :: "Env \<Rightarrow> (SourcePath \<Rightarrow> bool) \<Rightarrow> SourcePath
    \<Rightarrow> (error + SourceComponent list) option" where
  "fetchList E forceIgnore path =
     (case fetchComponent E forceIgnore path of
        Inl e \<Rightarrow> Some (Inl e)
      | Inr None \<Rightarrow> Some (Inr [])
      | Inr (Some component) \<Rightarrow> Some (Inr [component]))"

definition getComponentsFromPath :: "nat \<Rightarrow> Env \<Rightarrow> SourcePath
    \<Rightarrow> (error + SourceComponent list) option" where
  "getComponentsFromPath n E fsPath =
     (case exists (fileContainer E) fsPath of
        Inl e \<Rightarrow> Some (Inl e)
      | Inr False \<Rightarrow> Some (Inl (error_path_not_found fsPath))
      | Inr True \<Rightarrow>
          (let forceIgnore = findAndCreate E fsPath
           in case isDirectory (fileContainer E) fsPath of
                Inl e \<Rightarrow> Some (Inl e)
              | Inr False \<Rightarrow> fetchList E forceIgnore fsPath
              | Inr True \<Rightarrow>
                  (case pathForFetch E fsPath of
                     Inl e \<Rightarrow> Some (Inl e)
                   | Inr p \<Rightarrow>
                       if p = fsPath then getComponentsFromPathRecursive n E forceIgnore fsPath
                       else fetchList E forceIgnore p)))"


section \<open>ComponentSet: filtered resolution\<close>

text \<open>
  \<open>resolveSourceComponents\<close>. The resolver (\<open>new MetadataResolver(registry,
  tree).getComponentsFromPath\<close>) and \<open>SourceComponent.getChildren\<close> are functions given
  to it. The filter is a component set of its own or an iterable, from which a set is
  built. The result is the receiving set after the call and the set returned.
\<close>

datatype Filter = FilterSet ComponentMap | FilterIterable "ComponentLike list"

definition resolveComponent :: "(SourceComponent \<Rightarrow> SourceComponent list) \<Rightarrow> ComponentMap option
    \<Rightarrow> ComponentMap \<times> ComponentMap \<Rightarrow> SourceComponent \<Rightarrow> ComponentMap \<times> ComponentMap" where
  "resolveComponent getChildren filterSet state component =
     (case filterSet of
        Some fs \<Rightarrow>
          (let includedInWildcard = has fs (Plain WILDCARD (TypeObject (sc_type component)));
               parentInFilter =
                 (case sc_parent component of
                    None \<Rightarrow> False
                  | Some parent \<Rightarrow>
                      has fs (Source parent)
                      \<or> has fs (Plain WILDCARD (TypeObject (sc_type parent))))
           in if has fs (Source component) \<or> includedInWildcard \<or> parentInFilter
              then (add (Source component) (fst state), add (Source component) (snd state))
              else
                foldl (\<lambda>st childComponent.
                         if has fs (Source childComponent)
                         then (add (Source childComponent) (fst st),
                               add (Source childComponent) (snd st))
                         else st)
                  state (getChildren component))
      | None \<Rightarrow> (add (Source component) (fst state), add (Source component) (snd state)))"

text \<open>\<open>filter instanceof ComponentSet ? filter : new ComponentSet(filter)\<close>\<close>

definition filterSetOf :: "Filter \<Rightarrow> ComponentMap" where
  "filterSetOf f = (case f of FilterSet fs \<Rightarrow> fs | FilterIterable cs \<Rightarrow> ComponentSet cs)"

definition resolveSourceComponents :: "(SourcePath \<Rightarrow> error + SourceComponent list)
    \<Rightarrow> (SourceComponent \<Rightarrow> SourceComponent list) \<Rightarrow> ComponentMap \<Rightarrow> SourcePath
    \<Rightarrow> Filter option \<Rightarrow> error + ComponentMap \<times> ComponentMap" where
  "resolveSourceComponents resolver getChildren this fsPath filter_opt =
     (let filterSet = (case filter_opt of None \<Rightarrow> None | Some f \<Rightarrow> Some (filterSetOf f))
      in case resolver fsPath of
           Inl e \<Rightarrow> Inl e
         | Inr resolved \<Rightarrow>
             Inr (foldl (resolveComponent getChildren filterSet) (this, []) resolved))"

text \<open>
  The three conditions under which a component passes the filter, as the spec words
  them: the filter contains the component itself, or a wildcard member for its type, or
  its parent (itself, or by a wildcard for the parent's type).
\<close>

definition passesFilter :: "ComponentMap \<Rightarrow> SourceComponent \<Rightarrow> bool" where
  "passesFilter fs component =
     (has fs (Source component)
      \<or> has fs (Plain WILDCARD (TypeObject (sc_type component)))
      \<or> (\<exists>parent. sc_parent component = Some parent
            \<and> (has fs (Source parent)
                 \<or> has fs (Plain WILDCARD (TypeObject (sc_type parent))))))"

text \<open>
  What a filtered call adds, in order: each resolved component that passes the filter,
  and, of one that does not, the children the filter contains by type and full name.
\<close>

definition selectedByFilter :: "(SourceComponent \<Rightarrow> SourceComponent list) \<Rightarrow> ComponentMap
    \<Rightarrow> SourceComponent list \<Rightarrow> SourceComponent list" where
  "selectedByFilter getChildren fs resolved =
     concat (map (\<lambda>component.
        if passesFilter fs component then [component]
        else filter (\<lambda>child. has fs (Source child)) (getChildren component)) resolved)"

definition addAll :: "SourceComponent list \<Rightarrow> ComponentMap \<Rightarrow> ComponentMap" where
  "addAll cs m = foldl (\<lambda>m c. add (Source c) m) m cs"

section \<open>ComponentSet: the manifest\<close>

record PackageTypeMembers =
  ptm_members :: "string js list"
  ptm_name :: string

record PackageManifestObject =
  Package_types :: "PackageTypeMembers list"
  Package_version :: string

text \<open>
  \<open>getObject\<close>: the loop over the keys fills \<open>typeMap\<close> (a \<open>Map\<close>, in insertion
  order); a type with a \<open>folderContentType\<close> is replaced by that type. A member is
  the key's second field (\<open>undefined\<close> where the key has none).
\<close>

fun getObject_typeMap :: "MetadataRegistry \<Rightarrow> string list
    \<Rightarrow> (string \<times> string js list) list \<Rightarrow> error + (string \<times> string js list) list" where
  "getObject_typeMap reg [] typeMap = Inr typeMap"
| "getObject_typeMap reg (key # keys) typeMap =
     (case keyFields key of (typeId, fullName) \<Rightarrow>
        (case getTypeByName reg typeId of
           Inl e \<Rightarrow> Inl e
         | Inr type0 \<Rightarrow>
             (case (case folderContentType type0 of
                      None \<Rightarrow> Inr type0
                    | Some contentType \<Rightarrow>
                        if contentType \<noteq> [] then getTypeByName reg contentType else Inr type0) of
                Inl e \<Rightarrow> Inl e
              | Inr type1 \<Rightarrow>
                  (let typeMap1 =
                         (if map_of typeMap (type_name type1) = None
                          then AList.update (type_name type1) [] typeMap else typeMap);
                       typeMap2 =
                         (case map_of typeMap1 (type_name type1) of
                            Some ms \<Rightarrow> AList.update (type_name type1) (ms @ [fullName]) typeMap1
                          | None \<Rightarrow> typeMap1)
                   in getObject_typeMap reg keys typeMap2))))"

definition getObject :: "MetadataRegistry \<Rightarrow> string \<Rightarrow> ComponentMap
    \<Rightarrow> error + PackageManifestObject" where
  "getObject reg version components =
     (case getObject_typeMap reg (map fst components) [] of
        Inl e \<Rightarrow> Inl e
      | Inr typeMap \<Rightarrow>
          Inr \<lparr>Package_types =
                 map (\<lambda>(typeName, ms). \<lparr>ptm_members = ms, ptm_name = typeName\<rparr>) typeMap,
               Package_version = version\<rparr>)"

text \<open>
  A manifest as the XML parser hands it over: an element that is absent, occurs once
  (its value, no array) or occurs several times (an array). The text of an element is
  a string, or the number or boolean the parser made of it; a type block is an object
  with its elements, or a text.
\<close>

datatype 'a xml_value = Absent | Single 'a | Several "'a list"

record ParsedTypeMembers =
  parsed_members :: "string js xml_value"
  parsed_name :: "string js"

record ParsedManifest =
  parsed_types :: "ParsedTypeMembers js xml_value"
  parsed_version :: string

text \<open>
  \<open>getPackageXml\<close> followed by \<open>parseXml\<close>. Both are calls of the XML library
  (\<open>fast-xml-parser\<close>), which is no part of this repository. Two things are modelled of
  it. The shape of the result: an empty array and an \<open>undefined\<close> item write no element,
  and elements are read back as absent, single or several. And \<open>readText\<close>, a
  function given to the model: what the parser returns for the text the writer wrote for
  a name (the parser trims, and makes numbers and booleans of what looks like one).
  Names are written as they are, so the model covers names without markup characters.
\<close>

definition toXmlValue :: "'a list \<Rightarrow> 'a xml_value" where
  "toXmlValue xs = (case xs of [] \<Rightarrow> Absent | [x] \<Rightarrow> Single x | _ \<Rightarrow> Several xs)"

definition writtenMembers :: "string js list \<Rightarrow> string list" where
  "writtenMembers ms = List.map_filter (\<lambda>m. case m of Value s \<Rightarrow> Some s | _ \<Rightarrow> None) ms"

definition xmlRoundTrip :: "(string \<Rightarrow> string js) \<Rightarrow> PackageManifestObject \<Rightarrow> ParsedManifest" where
  "xmlRoundTrip readText obj =
     \<lparr>parsed_types =
        toXmlValue
          (map (\<lambda>t. Value \<lparr>parsed_members =
                              toXmlValue (map readText (writtenMembers (ptm_members t))),
                           parsed_name = readText (ptm_name t)\<rparr>)
             (Package_types obj)),
      parsed_version = Package_version obj\<rparr>"

text \<open>\<open>Array.isArray(v) ? v : [v]\<close>; an absent element is the one item \<open>undefined\<close>.\<close>

definition arrayOf :: "'a js xml_value \<Rightarrow> 'a js list" where
  "arrayOf v = (case v of Absent \<Rightarrow> [Undefined] | Single x \<Rightarrow> [x] | Several xs \<Rightarrow> xs)"

text \<open>
  \<open>getComponentsFromManifestObject\<close>, run to its end. Destructuring an \<open>undefined\<close>
  type block is a \<open>TypeError\<close>; destructuring a text gives \<open>undefined\<close> for the name
  and the members. \<open>fullName.includes\<close>, called when the type has a folder type, is a
  \<open>TypeError\<close> on a member that is no string. A type name that is no string is taken to
  fail in the lookup as it does in \<open>getTypeFromName\<close>, with a \<open>TypeError\<close>.
\<close>

fun membersLoop :: "MetadataRegistry \<Rightarrow> string js \<Rightarrow> string js list
    \<Rightarrow> error + MetadataComponent list" where
  "membersLoop reg typeName [] = Inr []"
| "membersLoop reg typeName (fullName # fullNames) =
     (case (case typeName of Value n \<Rightarrow> getTypeByName reg n | _ \<Rightarrow> Inl TypeError) of
        Inl e \<Rightarrow> Inl e
      | Inr type0 \<Rightarrow>
          (case (case folderType type0 of
                   None \<Rightarrow> Inr type0
                 | Some folder \<Rightarrow>
                     if folder \<noteq> [] then
                       (case fullName of
                          Value fn \<Rightarrow>
                            if CHR ''/'' \<notin> set fn then getTypeByName reg folder else Inr type0
                        | _ \<Rightarrow> Inl TypeError)
                     else Inr type0) of
             Inl e \<Rightarrow> Inl e
           | Inr type1 \<Rightarrow>
               (case membersLoop reg typeName fullNames of
                  Inl e \<Rightarrow> Inl e
                | Inr ys \<Rightarrow> Inr (AbstractComponent fullName type1 # ys))))"

fun typeMembersLoop :: "MetadataRegistry \<Rightarrow> ParsedTypeMembers js list
    \<Rightarrow> error + MetadataComponent list" where
  "typeMembersLoop reg [] = Inr []"
| "typeMembersLoop reg (block # rest) =
     (case block of
        Undefined \<Rightarrow> Inl TypeError
      | _ \<Rightarrow>
          (case membersLoop reg
                  (case block of Value t \<Rightarrow> parsed_name t | _ \<Rightarrow> Undefined)
                  (case block of Value t \<Rightarrow> arrayOf (parsed_members t) | _ \<Rightarrow> [Undefined]) of
             Inl e \<Rightarrow> Inl e
           | Inr xs \<Rightarrow>
               (case typeMembersLoop reg rest of
                  Inl e \<Rightarrow> Inl e
                | Inr ys \<Rightarrow> Inr (xs @ ys))))"

definition getComponentsFromManifestObject :: "MetadataRegistry \<Rightarrow> ParsedManifest
    \<Rightarrow> error + MetadataComponent list" where
  "getComponentsFromManifestObject reg obj = typeMembersLoop reg (arrayOf (parsed_types obj))"


section \<open>The spec's wording of two operations\<close>

text \<open>
  Type inference as the spec states it, on the registry's tables and their entries.
  Strategy 1: a registered mixed-content directory name is a segment of the path; the
  type id entered for it is the candidate, unless the type registered under that id is
  folder-scoped and the path's parent is that directory. (The words single out a
  directory when one registered name is a segment; with several, \<open>mixedContentMatch\<close>
  yields nothing, and the lemma on it below is about paths with at most one.) Strategy
  2: the suffix table's entry for the suffix of a descriptor path. Strategy 3: the
  suffix table's entry for the extension. The first strategy that yields a type id wins.
\<close>

definition folderScoped :: "MetadataRegistry \<Rightarrow> string \<Rightarrow> bool" where
  "folderScoped reg typeId = (case map_of (types reg) typeId of Some t \<Rightarrow> inFolder t | None \<Rightarrow> False)"

definition registeredSegments :: "Env \<Rightarrow> SourcePath \<Rightarrow> (string \<times> string) list" where
  "registeredSegments E fsPath =
     filter (\<lambda>entry. fst entry \<in> set (split sep fsPath)) (mixedContent (data E))"

definition mixedContentMatch :: "Env \<Rightarrow> SourcePath \<Rightarrow> string option" where
  "mixedContentMatch E fsPath =
     (case registeredSegments E fsPath of
        [entry] \<Rightarrow>
          if folderScoped (data E) (snd entry) \<and> parentName (utils E) fsPath = fst entry
          then None else Some (snd entry)
      | _ \<Rightarrow> None)"

definition descriptorSuffixMatch :: "Env \<Rightarrow> SourcePath \<Rightarrow> string option" where
  "descriptorSuffixMatch E fsPath =
     (case parseMetadataXml (utils E) fsPath of
        None \<Rightarrow> None
      | Some parsed \<Rightarrow> map_of (suffixes (data E)) (xml_suffix parsed))"

definition rawExtensionMatch :: "Env \<Rightarrow> SourcePath \<Rightarrow> string option" where
  "rawExtensionMatch E fsPath = map_of (suffixes (data E)) (extName (utils E) fsPath)"

fun firstMatch :: "'a option list \<Rightarrow> 'a option" where
  "firstMatch [] = None"
| "firstMatch (None # rest) = firstMatch rest"
| "firstMatch (Some x # rest) = Some x"

definition determineTypeId_spec :: "Env \<Rightarrow> SourcePath \<Rightarrow> string option" where
  "determineTypeId_spec E fsPath =
     firstMatch [mixedContentMatch E fsPath, descriptorSuffixMatch E fsPath,
                 rawExtensionMatch E fsPath]"

text \<open>
  What the lemma asks of the registry and of the path: the tables name no empty type
  id; every mixed-content type id is written as the type table keys it (lower case, no
  space) and has a type; and a key read from the suffix table is an entry of it or
  names no inherited member.
\<close>

definition typeIdsNonEmpty :: "MetadataRegistry \<Rightarrow> bool" where
  "typeIdsNonEmpty reg = ([] \<notin> snd ` set (suffixes reg) \<and> [] \<notin> snd ` set (mixedContent reg))"

definition mixedContentRegistered :: "MetadataRegistry \<Rightarrow> bool" where
  "mixedContentRegistered reg =
     list_all (\<lambda>entry. removeSpaces (toLowerCase (snd entry)) = snd entry
                        \<and> map_of (types reg) (snd entry) \<noteq> None)
       (mixedContent reg)"

definition ownOrAbsent :: "(string \<times> 'a) list \<Rightarrow> string \<Rightarrow> bool" where
  "ownOrAbsent obj key = (map_of obj key \<noteq> None \<or> key \<notin> set objectPrototype)"

definition suffixKeysPlain :: "Env \<Rightarrow> SourcePath \<Rightarrow> bool" where
  "suffixKeysPlain E fsPath =
     (ownOrAbsent (suffixes (data E)) (extName (utils E) fsPath)
      \<and> (case parseMetadataXml (utils E) fsPath of
           None \<Rightarrow> True
         | Some parsed \<Rightarrow> ownOrAbsent (suffixes (data E)) (xml_suffix parsed)))"

definition optionToJs :: "'a option \<Rightarrow> 'a js" where
  "optionToJs v = (case v of None \<Rightarrow> Undefined | Some x \<Rightarrow> Value x)"

text \<open>
  The type-rooted content path as the spec states it: the path up to the first segment
  that is the type's directory name, that segment, and one more segment (two more for a
  folder-scoped type). And what the descriptor looked for is: a name of the listing
  that begins with the base name and is a descriptor in that directory.
\<close>

definition typeRootedPath :: "SourcePath \<Rightarrow> MetadataType \<Rightarrow> SourcePath" where
  "typeRootedPath contentPath type =
     (let parts = split sep contentPath;
          before = takeWhile (\<lambda>p. p \<noteq> directoryName type) parts;
          rest = dropWhile (\<lambda>p. p \<noteq> directoryName type) parts
      in joinWith sep (before @ take (if inFolder type then 3 else 2) rest))"

definition descriptorFor :: "Utils \<Rightarrow> SourcePath \<Rightarrow> string \<Rightarrow> string \<Rightarrow> bool" where
  "descriptorFor U dir base name =
     (prefix base name \<and> parseMetadataXml U (join dir name) \<noteq> None)"

section \<open>The groupings of a manifest\<close>

text \<open>
  A registry as the manifest needs it: every type is found under its own name in lower
  case, the folder type of a type names that type as its content type, and a content
  type has no content type of its own.
\<close>

definition noContentType :: "MetadataType \<Rightarrow> bool" where
  "noContentType t = (folderContentType t = None \<or> folderContentType t = Some [])"

definition registered :: "MetadataRegistry \<Rightarrow> MetadataType \<Rightarrow> bool" where
  "registered reg t = (map_of (types reg) (toLowerCase (type_name t)) = Some t)"

definition type_ok :: "MetadataRegistry \<Rightarrow> MetadataType \<Rightarrow> bool" where
  "type_ok reg t =
     (registered reg t
      \<and> (case folderType t of
           None \<Rightarrow> True
         | Some f \<Rightarrow>
             f = [] \<or>
             (case map_of (types reg) (toLowerCase f) of
                None \<Rightarrow> False
              | Some tf \<Rightarrow>
                  (case folderContentType tf of
                     None \<Rightarrow> False
                   | Some c \<Rightarrow> c \<noteq> [] \<and> map_of (types reg) (toLowerCase c) = Some t)))
      \<and> (case folderContentType t of
           None \<Rightarrow> True
         | Some c \<Rightarrow>
             c = [] \<or>
             (case map_of (types reg) (toLowerCase c) of
                None \<Rightarrow> True
              | Some t' \<Rightarrow> noContentType t')))"

definition registry_ok :: "MetadataRegistry \<Rightarrow> bool" where
  "registry_ok reg = list_all (\<lambda>entry. type_ok reg (snd entry)) (types reg)"

text \<open>
  The type name \<open>getObject\<close> files a component of a type under, and the (type name,
  member) pair of a component and of each member of a manifest object, in order.
\<close>

definition manifestTypeName :: "MetadataRegistry \<Rightarrow> MetadataType \<Rightarrow> error + string" where
  "manifestTypeName reg t =
     (case folderContentType t of
        None \<Rightarrow> Inr (type_name t)
      | Some c \<Rightarrow>
          if c \<noteq> [] then
            (case getTypeByName reg c of Inl e \<Rightarrow> Inl e | Inr t' \<Rightarrow> Inr (type_name t'))
          else Inr (type_name t))"

definition componentPair :: "MetadataRegistry \<Rightarrow> MetadataComponent \<Rightarrow> (error + string) \<times> string js" where
  "componentPair reg c =
     (case c of
        AbstractComponent fullName t \<Rightarrow> (manifestTypeName reg t, fullName)
      | SourceBacked sc \<Rightarrow> (manifestTypeName reg (sc_type sc), Value (sc_fullName sc)))"

definition memberPairs :: "PackageManifestObject \<Rightarrow> ((error + string) \<times> string js) list" where
  "memberPairs obj =
     concat (map (\<lambda>t. map (\<lambda>m. (Inr (ptm_name t), m)) (ptm_members t)) (Package_types obj))"

text \<open>A type the manifest files members under: registered, with no content type of its own.\<close>

definition filed :: "MetadataRegistry \<Rightarrow> string \<Rightarrow> bool" where
  "filed reg n = (\<exists>t. map_of (types reg) (toLowerCase n) = Some t \<and> type_name t = n \<and> noContentType t)"

definition isString :: "string js \<Rightarrow> bool" where
  "isString v = (case v of Value s \<Rightarrow> True | _ \<Rightarrow> False)"

definition typeMap_ok :: "MetadataRegistry \<Rightarrow> (string \<times> string js list) list \<Rightarrow> bool" where
  "typeMap_ok reg tm =
     list_all (\<lambda>entry. snd entry \<noteq> [] \<and> list_all isString (snd entry) \<and> filed reg (fst entry)) tm"

text \<open>The texts a manifest object writes: per block the type name and the members.\<close>

definition manifestTexts :: "PackageManifestObject \<Rightarrow> string list" where
  "manifestTexts obj =
     concat (map (\<lambda>t. ptm_name t # writtenMembers (ptm_members t)) (Package_types obj))"

section \<open>Example data\<close>

text \<open>
  Modelled from the spec: the helpers of \<open>utils\<close> are missing from the sources. For
  the examples, a descriptor is a file named \<open><base>.<suffix>-meta.xml\<close>, the extension
  is what follows the last dot of the file name, the parent name is the name of the
  directory a path lies in, and the base name is the file name up to its first dot.
\<close>

definition parseMetadataXml_example :: "SourcePath \<Rightarrow> MetadataXml option" where
  "parseMetadataXml_example fsPath =
     (let b = basename fsPath; n = length b - 9 in
      if 9 \<le> length b \<and> drop n b = ''-meta.xml'' then
        (let stem = take n b;
             suffix = rev (takeWhile (\<lambda>c. c \<noteq> CHR ''.'') (rev stem));
             base = take (length stem - length suffix - 1) stem
         in if CHR ''.'' \<in> set stem \<and> suffix \<noteq> [] \<and> base \<noteq> []
            then Some \<lparr>xml_fullName = base, xml_suffix = suffix, xml_path = fsPath\<rparr>
            else None)
      else None)"

definition extName_example :: "SourcePath \<Rightarrow> string" where
  "extName_example fsPath =
     (let b = basename fsPath in
      if CHR ''.'' \<in> set b then rev (takeWhile (\<lambda>c. c \<noteq> CHR ''.'') (rev b)) else [])"

definition parentName_example :: "SourcePath \<Rightarrow> string" where
  "parentName_example fsPath = basename (dirname fsPath)"

definition baseName_example :: "SourcePath \<Rightarrow> string" where
  "baseName_example fsPath = takeWhile (\<lambda>c. c \<noteq> CHR ''.'') (basename fsPath)"

definition exampleUtils :: Utils where
  "exampleUtils =
     \<lparr>parseMetadataXml = parseMetadataXml_example, extName = extName_example,
      parentName = parentName_example, baseName = baseName_example\<rparr>"

definition ApexClass :: MetadataType where
  "ApexClass = \<lparr>type_id = ''apexclass'', type_name = ''ApexClass'', directoryName = ''classes'',
     inFolder = False, folderType = None, folderContentType = None\<rparr>"

definition Layout :: MetadataType where
  "Layout = \<lparr>type_id = ''layout'', type_name = ''Layout'', directoryName = ''layouts'',
     inFolder = False, folderType = None, folderContentType = None\<rparr>"

definition StaticResource :: MetadataType where
  "StaticResource = \<lparr>type_id = ''staticresource'', type_name = ''StaticResource'',
     directoryName = ''staticresources'', inFolder = False, folderType = None,
     folderContentType = None\<rparr>"

definition Bundle :: MetadataType where
  "Bundle = \<lparr>type_id = ''bundle'', type_name = ''Bundle'', directoryName = ''lwc'',
     inFolder = False, folderType = None, folderContentType = None\<rparr>"

definition Document :: MetadataType where
  "Document = \<lparr>type_id = ''document'', type_name = ''Document'', directoryName = ''documents'',
     inFolder = True, folderType = Some ''documentfolder'', folderContentType = None\<rparr>"

definition DocumentFolder :: MetadataType where
  "DocumentFolder = \<lparr>type_id = ''documentfolder'', type_name = ''DocumentFolder'',
     directoryName = ''documents'', inFolder = False, folderType = None,
     folderContentType = Some ''document''\<rparr>"

definition CustomObject :: MetadataType where
  "CustomObject = \<lparr>type_id = ''customobject'', type_name = ''CustomObject'',
     directoryName = ''objects'', inFolder = False, folderType = None,
     folderContentType = None\<rparr>"

definition CustomField :: MetadataType where
  "CustomField = \<lparr>type_id = ''customfield'', type_name = ''CustomField'',
     directoryName = ''fields'', inFolder = False, folderType = None,
     folderContentType = None\<rparr>"

definition exampleRegistry :: MetadataRegistry where
  "exampleRegistry =
     \<lparr>types = [(''apexclass'', ApexClass), (''layout'', Layout),
               (''staticresource'', StaticResource), (''bundle'', Bundle),
               (''document'', Document), (''documentfolder'', DocumentFolder),
               (''customobject'', CustomObject), (''customfield'', CustomField)],
      suffixes = [(''cls'', ''apexclass''), (''layout'', ''layout''),
                  (''resource'', ''staticresource''), (''js'', ''bundle''),
                  (''document'', ''document''), (''documentFolder'', ''documentfolder''),
                  (''object'', ''customobject''), (''field'', ''customfield'')],
      mixedContent = [(''staticresources'', ''staticresource''), (''lwc'', ''bundle''),
                      (''documents'', ''document'')],
      adapters = [(''staticresource'', ''mixedContent''), (''bundle'', ''bundle'')],
      apiVersion = ''50.0''\<rparr>"

text \<open>A local tree: what each path names.\<close>

definition exampleFs :: FileSystem where
  "exampleFs = map_of
     [(''classes'', DirNode [''Foo.cls'', ''Foo.cls-meta.xml'', ''Foo.constructor'']),
      (''classes/Foo.cls'', FileNode),
      (''classes/Foo.cls-meta.xml'', FileNode),
      (''classes/Foo.constructor'', FileNode),
      (''lwc'', DirNode [''cmp'']),
      (''lwc/cmp'', DirNode [''sub'', ''cmp.js-meta.xml'', ''z.js-meta.xml'']),
      (''lwc/cmp/sub'', DirNode [''s.js-meta.xml'']),
      (''lwc/cmp/sub/s.js-meta.xml'', FileNode),
      (''lwc/cmp/cmp.js-meta.xml'', FileNode),
      (''lwc/cmp/z.js-meta.xml'', FileNode),
      (''staticresources'', DirNode [''site.resource-meta.xml'', ''site'']),
      (''staticresources/site.resource-meta.xml'', FileNode),
      (''staticresources/site'', DirNode [''css'']),
      (''staticresources/site/css'', DirNode []),
      (''documents'', DirNode [''folder'']),
      (''documents/folder'',
         DirNode [''doc.document-meta.xml'', ''doc'', ''doc-old.document-meta.xml'', ''doc-old'']),
      (''documents/folder/doc.document-meta.xml'', FileNode),
      (''documents/folder/doc'', DirNode [''file.txt'']),
      (''documents/folder/doc/file.txt'', FileNode),
      (''documents/folder/doc-old.document-meta.xml'', FileNode),
      (''documents/folder/doc-old'', DirNode [''old.txt'']),
      (''documents/folder/doc-old/old.txt'', FileNode)]"


text \<open>
  An adapter for the examples, as the test suite stubs them: every path gives a
  component of the type, named by the path's base name, with the path as its descriptor.
\<close>

definition exampleAdapter :: "MetadataType js \<Rightarrow> string js \<Rightarrow> (SourcePath \<Rightarrow> bool) \<Rightarrow> SourcePath
    \<Rightarrow> error + SourceComponent option" where
  "exampleAdapter type adapterId forceIgnore path =
     (case type of
        Value t \<Rightarrow> Inr (Some (SourceComponent (baseName_example path) t (Some path) None None))
      | _ \<Rightarrow> Inr None)"

definition exampleEnv :: "(SourcePath \<Rightarrow> bool) \<Rightarrow> Env" where
  "exampleEnv denies =
     \<lparr>data = exampleRegistry, fileContainer = LocalFileContainer exampleFs,
      utils = exampleUtils, findAndCreate = (\<lambda>seed. denies), getComponent = exampleAdapter\<rparr>"

text \<open>A remote listing with one directory, as \<open>fetch\<close> indexes it.\<close>

definition exampleTree :: GithubTree where
  "exampleTree =
     [(''.'', [''classes'']),
      (''classes'', [''classes/Foo.cls'', ''classes/Foo.cls-meta.xml''])]"

definition githubEnv :: Env where
  "githubEnv =
     \<lparr>data = exampleRegistry, fileContainer = GithubFileContainer exampleTree,
      utils = exampleUtils, findAndCreate = (\<lambda>seed path. False), getComponent = exampleAdapter\<rparr>"



definition HomeXml :: SourceComponent where
  "HomeXml = SourceComponent ''Home'' Layout (Some ''layouts/Home.layout'') None None"

definition HomeContent :: SourceComponent where
  "HomeContent = SourceComponent ''Home'' Layout None (Some ''layouts/Home.layout'') None"

definition Account :: SourceComponent where
  "Account =
     SourceComponent ''Account'' CustomObject (Some ''objects/Account/Account.object-meta.xml'')
       (Some ''objects/Account'') None"

definition AccountField :: SourceComponent where
  "AccountField =
     SourceComponent ''Account.Rating'' CustomField
       (Some ''objects/Account/fields/Rating.field-meta.xml'') None (Some Account)"

definition exampleChildren :: "SourceComponent \<Rightarrow> SourceComponent list" where
  "exampleChildren component = (if component = Account then [AccountField] else [])"


section \<open>What a component map holds\<close>

text \<open>
  The outer keys of a map, its variants (the pairs of an outer key and a source key stored
  under it), and the maps a JavaScript \<open>Map\<close> can be: no key twice.
\<close>

definition outerKeys :: "ComponentMap \<Rightarrow> string set" where
  "outerKeys m = dom (map_of m)"

definition variants :: "ComponentMap \<Rightarrow> (string \<times> string) set" where
  "variants m = {(k, sk). \<exists>inner. map_of m k = Some inner \<and> sk \<in> dom (map_of inner)}"

definition wf_map :: "ComponentMap \<Rightarrow> bool" where
  "wf_map m = (distinct (map fst m) \<and> list_all (\<lambda>p. distinct (map fst (snd p))) m)"


section \<open>Properties: the size of a component set\<close>

lemma size_of_sum:
  "size_of m = sum_list (map (\<lambda>p. if snd p = [] then 1 else length (snd p)) m)"
proof -
  have "foldl (\<lambda>size collection. size + (if length collection = 0 then 1 else length collection)) a xs
        = a + sum_list (map (\<lambda>c. if c = [] then 1 else length c) xs)"
    for a and xs :: "SourceMap list"
    by (induction xs arbitrary: a) auto
  then show ?thesis by (simp add: size_of_def comp_def)
qed





lemma outerKeys_add: "outerKeys (add c m) = insert (simpleKey c) (outerKeys m)"
  by (cases c)
    (auto simp: outerKeys_def add_def Let_def update_conv' split: option.splits if_splits)

lemma variants_add:
  "variants (add c m) =
     variants m \<union> (case c of Source sc \<Rightarrow> {(simpleKey c, sourceKey sc)} | Plain fn t \<Rightarrow> {})"
  by (cases c)
    (auto simp: variants_def add_def Let_def update_conv' split: option.splits if_splits)

lemma set_update_subset: "set (AList.update k v al) \<subseteq> insert (k, v) (set al)"
  by (induction al) auto

lemma list_all_update:
  "P (k, v) \<Longrightarrow> list_all P al \<Longrightarrow> list_all P (AList.update k v al)"
  using set_update_subset[of k v al] by (auto simp: list_all_iff)

lemma add_unfold:
  "add c m =
     (case c of
        Source sc \<Rightarrow>
          (case map_of (if map_of m (simpleKey c) = None
                        then AList.update (simpleKey c) [] m else m) (simpleKey c) of
             Some inner \<Rightarrow>
               AList.update (simpleKey c) (AList.update (sourceKey sc) sc inner)
                 (if map_of m (simpleKey c) = None then AList.update (simpleKey c) [] m else m)
           | None \<Rightarrow> (if map_of m (simpleKey c) = None then AList.update (simpleKey c) [] m else m))
      | Plain fullName t \<Rightarrow>
          (if map_of m (simpleKey c) = None then AList.update (simpleKey c) [] m else m))"
  unfolding add_def Let_def by (rule refl)

lemma wf_map_add: "wf_map m \<Longrightarrow> wf_map (add c m)"
proof -
  assume wf: "wf_map m"
  define key where "key = simpleKey c"
  define m1 where "m1 = (if map_of m key = None then AList.update key [] m else m)"
  note add_eq = add_unfold[of c m, folded key_def, folded m1_def]
  have wf1: "wf_map m1"
    using wf by (auto simp: m1_def wf_map_def distinct_update intro: list_all_update)
  show ?thesis
  proof (cases c)
    case (Plain fn t)
    then show ?thesis unfolding add_eq using wf1 by simp
  next
    case (Source sc)
    show ?thesis
    proof (cases "map_of m1 key")
      case None
      then show ?thesis unfolding add_eq using wf1 Source by simp
    next
      case (Some inner)
      then have "(key, inner) \<in> set m1" by (rule map_of_SomeD)
      then have "distinct (map fst inner)"
        using wf1 by (auto simp: wf_map_def list_all_iff)
      then have "distinct (map fst (AList.update (sourceKey sc) sc inner))"
        by (rule distinct_update)
      then have "wf_map (AList.update key (AList.update (sourceKey sc) sc inner) m1)"
        using wf1 by (auto simp: wf_map_def distinct_update intro: list_all_update)
      then show ?thesis unfolding add_eq using Some Source by simp
    qed
  qed
qed

lemma foldl_add_abs:
  "wf_map m \<Longrightarrow>
   wf_map (foldl (\<lambda>m c. add c m) m cs) \<and>
   outerKeys (foldl (\<lambda>m c. add c m) m cs) = outerKeys m \<union> simpleKey ` set cs \<and>
   variants (foldl (\<lambda>m c. add c m) m cs) =
     variants m \<union> {(simpleKey (Source sc), sourceKey sc) | sc. Source sc \<in> set cs}"
proof (induction cs arbitrary: m)
  case Nil
  then show ?case by simp
next
  case (Cons c cs)
  from Cons.IH[OF wf_map_add[OF Cons.prems], of c]
  show ?case
    by (cases c) (auto simp: outerKeys_add variants_add)
qed

lemma iterate_length: "iterate reg m = Inr ys \<Longrightarrow> length ys = size_of m"
proof (induction m arbitrary: ys)
  case Nil
  then show ?case by (simp add: size_of_sum)
next
  case (Cons p rest)
  obtain k inner where p: "p = (k, inner)" by (cases p)
  show ?case
  proof (cases "iterate reg rest")
    case (Inl e)
    then show ?thesis using Cons.prems p by (auto split: prod.splits sum.splits if_splits)
  next
    case (Inr zs)
    from Cons.IH[OF Inr] have "length zs = size_of rest" .
    then show ?thesis using Cons.prems p Inr
      by (auto simp: size_of_sum split: prod.splits sum.splits if_splits)
  qed
qed




section \<open>Properties: iteration\<close>

lemma split_first: "\<exists>ws. split d s = takeWhile (\<lambda>c. c \<noteq> d) s # ws"
  by (induction s) (auto split: list.splits)

lemma split_append_delimiter: "d \<notin> set a \<Longrightarrow> split d (a @ d # b) = a # split d b"
  by (induction a) (auto split: list.splits)

text \<open>
  Reading a key back: the type field is found when it holds no \<open>#\<close>; the name comes back
  only up to its first \<open>#\<close>.
\<close>

lemma keyFields_key:
  "KEY_DELIMITER \<notin> set typeName \<Longrightarrow>
   keyFields (typeName @ KEY_DELIMITER # fullName)
     = (typeName, Value (takeWhile (\<lambda>c. c \<noteq> KEY_DELIMITER) fullName))"
  using split_first[of KEY_DELIMITER fullName]
  by (auto simp: keyFields_def split_append_delimiter split: list.splits)

text \<open>
  The shape of full iteration: per outer key in insertion order, every stored variant
  when there is one, else one abstract component read back from the key.
\<close>

lemma iterate_yields:
  "iterate reg m = Inr ys \<Longrightarrow>
   ys = concat (map (\<lambda>entry.
          if snd entry = []
          then [AbstractComponent (snd (keyFields (fst entry)))
                  (projr (getTypeByName reg (fst (keyFields (fst entry)))))]
          else map (SourceBacked \<circ> snd) (snd entry)) m)"
proof (induction m arbitrary: ys)
  case Nil
  then show ?case by simp
next
  case (Cons p rest)
  obtain k inner where p: "p = (k, inner)" by (cases p)
  show ?case
  proof (cases "iterate reg rest")
    case (Inl e)
    then show ?thesis using Cons.prems p by (auto split: prod.splits sum.splits if_splits)
  next
    case (Inr zs)
    from Cons.IH[OF Inr] show ?thesis using Cons.prems p Inr
      by (auto split: prod.splits sum.splits if_splits)
  qed
qed

text \<open>
  C2 at a full name that holds the key delimiter. An abstract component
  \<open>{fullName: 'Case-Layout #2', type: Layout}\<close> is added; iteration yields an abstract
  component named \<open>Case-Layout \<close>: the key is split at every \<open>#\<close> and the name is its
  second field.
\<close>

theorem iterate_cuts_fullName_at_delimiter:
  "iterate exampleRegistry (ComponentSet [Plain ''Case-Layout #2'' (TypeObject Layout)])
     = Inr [AbstractComponent (Value ''Case-Layout '') Layout]"
  by (simp add: ComponentSet_def add_def simpleKey_def keyFields_def KEY_DELIMITER_def
      getTypeByName_def exampleRegistry_def Layout_def toLowerCase_def toLowerCase_char_def)

section \<open>Properties: add\<close>

lemma has_add: "has (add c m) c"
  by (cases c) (auto simp: has_def add_def Let_def update_conv' split: option.splits)

lemma has_add_mono: "has m c' \<Longrightarrow> has (add c m) c'"
  by (cases c) (auto simp: has_def add_def Let_def update_conv' split: option.splits)

lemma add_idem: "add c (add c m) = add c m"
proof -
  define key where "key = simpleKey c"
  define m1 where "m1 = (if map_of m key = None then AList.update key [] m else m)"
  note add_eq = add_unfold[of c m, folded key_def, folded m1_def]
  have k1: "map_of m1 key \<noteq> None" by (auto simp: m1_def update_conv')
  show ?thesis
  proof (cases c)
    case (Plain fn t)
    then have "add c m = m1" unfolding add_eq by simp
    moreover have "add c m1 = m1" using k1[unfolded key_def] Plain
      by (auto simp: add_def Let_def)
    ultimately show ?thesis by simp
  next
    case (Source sc)
    from k1 obtain inner where inner: "map_of m1 key = Some inner" by auto
    let ?inner2 = "AList.update (sourceKey sc) sc inner"
    let ?m2 = "AList.update key ?inner2 m1"
    have m2: "add c m = ?m2" unfolding add_eq using Source inner by simp
    have get2: "map_of ?m2 key = Some ?inner2" by (simp add: update_conv')
    have "map_of ?inner2 (sourceKey sc) = Some sc" by (simp add: update_conv')
    then have i2: "AList.update (sourceKey sc) sc ?inner2 = ?inner2" by (rule update_triv)
    have "add c ?m2 = AList.update key ?inner2 ?m2"
      using Source get2[unfolded key_def] i2 by (simp add: add_def Let_def key_def)
    also have "\<dots> = ?m2" using get2 by (rule update_triv)
    finally show ?thesis using m2 by simp
  qed
qed

text \<open>An entry stays when the component added has another outer key or another source key.\<close>

lemma add_keeps_other_entries:
  "map_of m k = Some inner \<Longrightarrow> map_of inner sk = Some e \<Longrightarrow>
   (case c of Source sc \<Rightarrow> (k, sk) \<noteq> (simpleKey c, sourceKey sc) | Plain fn t \<Rightarrow> True) \<Longrightarrow>
   \<exists>inner'. map_of (add c m) k = Some inner' \<and> map_of inner' sk = Some e"
  by (cases c) (auto simp: add_def Let_def update_conv' split: option.splits if_splits)

text \<open>
  C10 at two source-backed components of one type and name that differ in their paths:
  one has the descriptor path \<open>layouts/Home.layout\<close> and no content, the other that
  content path and no descriptor. Their source keys, concatenated without a separator,
  are the same string, and adding the second replaces the first.
\<close>

theorem add_replaces_distinct_variant:
  "HomeXml \<noteq> HomeContent
   \<and> iterate exampleRegistry (add (Source HomeXml) []) = Inr [SourceBacked HomeXml]
   \<and> iterate exampleRegistry (add (Source HomeContent) (add (Source HomeXml) []))
       = Inr [SourceBacked HomeContent]"
  by (simp add: add_def simpleKey_def sourceKey_def HomeXml_def HomeContent_def Layout_def
      KEY_DELIMITER_def)


section \<open>Properties: filtered resolution\<close>

lemma children_loop:
  "foldl (\<lambda>st child. if has fs (Source child)
                      then (add (Source child) (fst st), add (Source child) (snd st)) else st)
     (a, b) children
   = (addAll (filter (\<lambda>child. has fs (Source child)) children) a,
      addAll (filter (\<lambda>child. has fs (Source child)) children) b)"
  by (induction children arbitrary: a b) (auto simp: addAll_def)

lemma passesFilter_code:
  "passesFilter fs c =
     (has fs (Source c) \<or> has fs (Plain WILDCARD (TypeObject (sc_type c)))
      \<or> (case sc_parent c of None \<Rightarrow> False
          | Some parent \<Rightarrow> has fs (Source parent) \<or> has fs (Plain WILDCARD (TypeObject (sc_type parent)))))"
  by (auto simp: passesFilter_def split: option.splits)

lemma resolveComponent_filtered:
  "resolveComponent getChildren (Some fs) (a, b) c
   = (addAll (selectedByFilter getChildren fs [c]) a, addAll (selectedByFilter getChildren fs [c]) b)"
  unfolding resolveComponent_def
  by (simp add: children_loop passesFilter_code[symmetric] selectedByFilter_def Let_def addAll_def)

lemma addAll_append: "addAll (xs @ ys) m = addAll ys (addAll xs m)"
  by (simp add: addAll_def)

lemma selected_Cons:
  "selectedByFilter g fs (c # cs) = selectedByFilter g fs [c] @ selectedByFilter g fs cs"
  by (simp add: selectedByFilter_def)

lemma resolve_loop:
  "foldl (resolveComponent getChildren (Some fs)) (a, b) resolved
   = (addAll (selectedByFilter getChildren fs resolved) a,
      addAll (selectedByFilter getChildren fs resolved) b)"
proof (induction resolved arbitrary: a b)
  case Nil
  then show ?case by (simp add: selectedByFilter_def addAll_def)
next
  case (Cons c cs)
  show ?case
    by (simp add: resolveComponent_filtered Cons.IH selected_Cons[of getChildren fs c cs] addAll_append)
qed

lemma outerKeys_addAll: "outerKeys (addAll cs m) = outerKeys m \<union> (simpleKey \<circ> Source) ` set cs"
  by (induction cs arbitrary: m) (auto simp: addAll_def outerKeys_add)

lemma has_outerKeys: "has m c = (simpleKey c \<in> outerKeys m)"
  by (auto simp: has_def outerKeys_def)

text \<open>
  C3, as the code has it. With a filter supplied, the call adds, in order, the components
  \<open>selectedByFilter\<close> names, to the receiving set and to the set it returns: a resolved
  component that passes one of the three conditions, and otherwise those of its children
  that the filter contains themselves (by type and full name; a child is not tested for a
  wildcard or for its parent). With a wildcard for a type in the filter, every resolved
  component of that type is added.
\<close>

theorem resolveSourceComponents_filtered:
  assumes "resolver fsPath = Inr resolved"
  shows "resolveSourceComponents resolver getChildren this fsPath (Some f)
           = Inr (addAll (selectedByFilter getChildren (filterSetOf f) resolved) this,
                  addAll (selectedByFilter getChildren (filterSetOf f) resolved) [])
         \<and> (\<forall>c \<in> set resolved.
               has (filterSetOf f) (Plain WILDCARD (TypeObject (sc_type c))) \<longrightarrow>
               c \<in> set (selectedByFilter getChildren (filterSetOf f) resolved)
               \<and> has (addAll (selectedByFilter getChildren (filterSetOf f) resolved) this) (Source c)
               \<and> has (addAll (selectedByFilter getChildren (filterSetOf f) resolved) []) (Source c))"
proof
  show "resolveSourceComponents resolver getChildren this fsPath (Some f)
           = Inr (addAll (selectedByFilter getChildren (filterSetOf f) resolved) this,
                  addAll (selectedByFilter getChildren (filterSetOf f) resolved) [])"
    using assms
    by (cases f) (simp_all add: resolveSourceComponents_def resolve_loop filterSetOf_def)
next
  show "\<forall>c \<in> set resolved.
               has (filterSetOf f) (Plain WILDCARD (TypeObject (sc_type c))) \<longrightarrow>
               c \<in> set (selectedByFilter getChildren (filterSetOf f) resolved)
               \<and> has (addAll (selectedByFilter getChildren (filterSetOf f) resolved) this) (Source c)
               \<and> has (addAll (selectedByFilter getChildren (filterSetOf f) resolved) []) (Source c)"
  proof (intro ballI impI)
    fix c assume c: "c \<in> set resolved"
      and w: "has (filterSetOf f) (Plain WILDCARD (TypeObject (sc_type c)))"
    from w have "passesFilter (filterSetOf f) c" by (simp add: passesFilter_def)
    with c have sel: "c \<in> set (selectedByFilter getChildren (filterSetOf f) resolved)"
      by (auto simp: selectedByFilter_def)
    then show "c \<in> set (selectedByFilter getChildren (filterSetOf f) resolved)
               \<and> has (addAll (selectedByFilter getChildren (filterSetOf f) resolved) this) (Source c)
               \<and> has (addAll (selectedByFilter getChildren (filterSetOf f) resolved) []) (Source c)"
      by (auto simp: has_outerKeys outerKeys_addAll)
  qed
qed

theorem resolveSourceComponents_filtered_witness:
  "resolveSourceComponents (\<lambda>p. Inr [Account]) exampleChildren [] ''objects''
     (Some (FilterIterable [Plain ''*'' (TypeString ''CustomObject'')]))
   = Inr (ComponentSet [Source Account], ComponentSet [Source Account])
   \<and> has (ComponentSet [Source Account]) (Source Account)"
  using resolveSourceComponents_filtered[of "\<lambda>p. Inr [Account]" "''objects''" "[Account]"
      exampleChildren "[]" "FilterIterable [Plain ''*'' (TypeString ''CustomObject'')]"]
  by (simp add: selectedByFilter_def passesFilter_def filterSetOf_def has_def ComponentSet_def
      add_def simpleKey_def WILDCARD_def KEY_DELIMITER_def trim_def isWhiteSpace_def
      toLowerCase_def toLowerCase_char_def Account_def CustomObject_def addAll_def)

text \<open>
  C3 as stated fails for the children. The filter holds a wildcard for \<open>CustomField\<close>
  only; the resolved object \<open>Account\<close> does not pass, its child field passes the second
  of the three conditions, and nothing is added.
\<close>

theorem resolveSourceComponents_children_counterexample:
  "passesFilter (ComponentSet [Plain ''*'' (TypeString ''CustomField'')]) AccountField
   \<and> \<not> passesFilter (ComponentSet [Plain ''*'' (TypeString ''CustomField'')]) Account
   \<and> AccountField \<in> set (exampleChildren Account)
   \<and> resolveSourceComponents (\<lambda>p. Inr [Account]) exampleChildren [] ''objects''
        (Some (FilterIterable [Plain ''*'' (TypeString ''CustomField'')]))
      = Inr ([], [])"
  by (simp add: resolveSourceComponents_def resolveComponent_def passesFilter_def has_def
      filterSetOf_def ComponentSet_def add_def simpleKey_def WILDCARD_def KEY_DELIMITER_def trim_def
      isWhiteSpace_def toLowerCase_def toLowerCase_char_def exampleChildren_def
      Account_def AccountField_def CustomObject_def CustomField_def)



section \<open>Properties: the resolver\<close>

lemmas path_simps = join_def normalize_def sep_def basename_def dirname_def Let_def

lemmas example_simps =
  exampleEnv_def exampleRegistry_def exampleUtils_def exampleFs_def exampleAdapter_def
  parseMetadataXml_example_def baseName_example_def extName_example_def parentName_example_def
  readDir_def isDirectory_def exists_def fetchComponent_def determineTypeId_def
  getTypeFromName_def toLowerCase_def toLowerCase_char_def removeSpaces_def falsy_def
  getProp_def objectPrototype_def type_inFolder_def type_directoryName_def

lemma scanFiles_append:
  "scanFiles E fi dir (earlier @ later) dq cs =
     (case scanFiles E fi dir earlier dq cs of
        Inl e \<Rightarrow> Inl e
      | Inr (Stopped cs') \<Rightarrow> Inr (Stopped cs')
      | Inr (Finished dq' cs') \<Rightarrow> scanFiles E fi dir later dq' cs')"
proof (induction earlier arbitrary: dq cs)
  case Nil
  then show ?case by simp
next
  case (Cons f fs)
  show ?case
    by (auto simp: Cons.IH Let_def split: sum.splits bool.splits option.splits)
qed

text \<open>
  C4. A directory is scanned: the files before \<open>file\<close> are passed without a stop or an
  error (leaving \<open>dirQueue\<close> and \<open>components\<close>), and the descriptor \<open>file\<close> resolves to
  a component whose type is mixed content, in a directory that is not the type's own
  (\<open>typeDir\<close> differs from the type's directory name, read one level higher for a
  folder-scoped type). Then the walk of the directory returns, at any depth allowed, the
  components so far and this one: nothing of the later files, nothing of the queued
  subdirectories.
\<close>

theorem walk_stops_at_mixed_content:
  assumes "\<not> forceIgnore directory"
    and "readDir (fileContainer E) directory = Inr (earlier @ file # later)"
    and "scanFiles E forceIgnore directory earlier [] [] = Inr (Finished dirQueue components)"
    and "isDirectory (fileContainer E) (join directory file) = Inr False"
    and "parseMetadataXml (utils E) (join directory file) \<noteq> None"
    and "fetchComponent E forceIgnore (join directory file) = Inr (Some component)"
    and "\<not> falsy (getProp (mixedContent (data E)) (directoryName (sc_type component)))"
    and "basename (dirname (if inFolder (sc_type component)
                            then dirname (join directory file) else join directory file))
         \<noteq> directoryName (sc_type component)"
  shows "getComponentsFromPathRecursive (Suc n) E forceIgnore directory
         = Some (Inr (components @ [component]))"
proof -
  have "scanFiles E forceIgnore directory (file # later) dirQueue components
        = Inr (Stopped (components @ [component]))"
    using assms(4-8) by (simp add: Let_def)
  then have "scanFiles E forceIgnore directory (earlier @ file # later) [] []
        = Inr (Stopped (components @ [component]))"
    using assms(3) by (simp add: scanFiles_append)
  then show ?thesis using assms(1,2) by simp
qed


text \<open>
  In \<open>lwc/cmp\<close> the subdirectory \<open>sub\<close> is queued, \<open>cmp.js-meta.xml\<close> resolves to the
  bundle and the scan stops: \<open>z.js-meta.xml\<close> and \<open>sub/s.js-meta.xml\<close> add nothing.
\<close>

theorem walk_stops_at_mixed_content_witness:
  "getComponentsFromPathRecursive (Suc 0) (exampleEnv (\<lambda>p. False)) (\<lambda>p. False) ''lwc/cmp''
   = Some (Inr [SourceComponent ''cmp'' Bundle (Some ''lwc/cmp/cmp.js-meta.xml'') None None])"
  using walk_stops_at_mixed_content[of "\<lambda>p. False" "''lwc/cmp''" "exampleEnv (\<lambda>p. False)"
      "[''sub'']" "''cmp.js-meta.xml''" "[''z.js-meta.xml'']" "[''lwc/cmp/sub'']" "[]"
      "SourceComponent ''cmp'' Bundle (Some ''lwc/cmp/cmp.js-meta.xml'') None None" 0]
  by (simp add: path_simps example_simps Bundle_def)


subsection \<open>Type inference\<close>

lemma mixedContentLoop_find:
  "mixedContentLoop E fsPath parts entries =
     (case List.find (\<lambda>entry. fst entry \<in> set parts) entries of
        None \<Rightarrow> Inr Undefined
      | Some entry \<Rightarrow>
          (case getTypeFromName (data E) (Value (snd entry)) of
             Inl e \<Rightarrow> Inl e
           | Inr type \<Rightarrow>
               Inr (if type_inFolder type \<and> parentName (utils E) fsPath = fst entry
                    then Undefined else Value (snd entry))))"
  by (induction entries) (auto split: sum.splits)

lemma find_filter_hd:
  "List.find P xs = (case filter P xs of [] \<Rightarrow> None | x # rest \<Rightarrow> Some x)"
  by (induction xs) auto

lemma map_of_nonempty:
  "[] \<notin> snd ` set al \<Longrightarrow> map_of al k \<noteq> Some []"
  by (metis map_of_SomeD snd_conv image_eqI)

lemma getProp_own:
  "ownOrAbsent obj key \<Longrightarrow> getProp obj key = optionToJs (map_of obj key)"
  by (auto simp: ownOrAbsent_def getProp_def optionToJs_def split: option.splits)

lemma getTypeFromName_registered:
  assumes "removeSpaces (toLowerCase typeId) = typeId" and "map_of (types reg) typeId = Some t"
  shows "getTypeFromName reg (Value typeId) = Inr (Value t)"
  using assms by (simp add: getTypeFromName_def getProp_def)

text \<open>
  Where \<open>determineTypeId\<close> is the spec's first match of the three strategies: over a
  registry that names no empty type id and has a type for every mixed-content type id,
  for a path with at most one registered directory name among its segments, whose
  suffix and extension name no inherited member of the suffix table. (With several
  registered names among the segments the code takes the first in the table's order.)
\<close>

lemma determineTypeId_first_match:
  assumes ne: "typeIdsNonEmpty (data E)"
    and reg: "mixedContentRegistered (data E)"
    and one: "length (registeredSegments E fsPath) \<le> 1"
    and plain: "suffixKeysPlain E fsPath"
  shows "determineTypeId E fsPath = Inr (optionToJs (determineTypeId_spec E fsPath))"
proof -
  from ne have s: "\<And>k. map_of (suffixes (data E)) k \<noteq> Some []"
    and m: "[] \<notin> snd ` set (mixedContent (data E))"
    using map_of_nonempty[of "suffixes (data E)"] by (auto simp: typeIdsNonEmpty_def)
  from plain have ext: "getProp (suffixes (data E)) (extName (utils E) fsPath)
      = optionToJs (map_of (suffixes (data E)) (extName (utils E) fsPath))"
    by (simp add: suffixKeysPlain_def getProp_own)
  have later: "(let typeId2 =
                 (if falsy Undefined then
                    (case parseMetadataXml (utils E) fsPath of
                       Some parsedMetaXml \<Rightarrow> getProp (suffixes (data E)) (xml_suffix parsedMetaXml)
                     | None \<Rightarrow> Undefined)
                  else Undefined);
               typeId3 =
                 (if falsy typeId2 then getProp (suffixes (data E)) (extName (utils E) fsPath)
                  else typeId2)
           in typeId3)
        = optionToJs (firstMatch [descriptorSuffixMatch E fsPath, rawExtensionMatch E fsPath])"
  proof (cases "parseMetadataXml (utils E) fsPath")
    case None
    then show ?thesis
      by (cases "map_of (suffixes (data E)) (extName (utils E) fsPath)")
         (simp_all add: falsy_def ext descriptorSuffixMatch_def rawExtensionMatch_def
            optionToJs_def)
  next
    case (Some parsed)
    with plain have "getProp (suffixes (data E)) (xml_suffix parsed)
        = optionToJs (map_of (suffixes (data E)) (xml_suffix parsed))"
      by (simp add: suffixKeysPlain_def getProp_own)
    then show ?thesis using Some s[of "xml_suffix parsed"]
      by (cases "map_of (suffixes (data E)) (xml_suffix parsed)";
          cases "map_of (suffixes (data E)) (extName (utils E) fsPath)")
         (simp_all add: falsy_def ext descriptorSuffixMatch_def rawExtensionMatch_def
            optionToJs_def)
  qed
  show ?thesis
  proof (cases "registeredSegments E fsPath")
    case Nil
    then have f: "List.find (\<lambda>entry. fst entry \<in> set (split sep fsPath)) (mixedContent (data E))
        = None"
      by (simp add: find_filter_hd registeredSegments_def)
    have "mixedContentMatch E fsPath = None" using Nil by (simp add: mixedContentMatch_def)
    then show ?thesis
      using later by (simp add: determineTypeId_def determineTypeId_spec_def
          mixedContentLoop_find f falsy_def Let_def)
  next
    case (Cons entry rest)
    with one have rest: "rest = []" by simp
    from Cons have f: "List.find (\<lambda>entry. fst entry \<in> set (split sep fsPath))
        (mixedContent (data E)) = Some entry"
      by (simp add: find_filter_hd registeredSegments_def)
    from Cons have "entry \<in> set (registeredSegments E fsPath)" by simp
    then have mem: "entry \<in> set (mixedContent (data E))" by (simp add: registeredSegments_def)
    with m have tne: "snd entry \<noteq> []" by force
    from mem reg obtain t where norm: "removeSpaces (toLowerCase (snd entry)) = snd entry"
      and t: "map_of (types (data E)) (snd entry) = Some t"
      by (auto simp: mixedContentRegistered_def list_all_iff)
    have g: "getTypeFromName (data E) (Value (snd entry)) = Inr (Value t)"
      using getTypeFromName_registered[OF norm t] .
    have fs: "folderScoped (data E) (snd entry) = inFolder t"
      using t by (simp add: folderScoped_def)
    have mm: "mixedContentMatch E fsPath
        = (if inFolder t \<and> parentName (utils E) fsPath = fst entry then None
           else Some (snd entry))"
      using Cons rest fs by (simp add: mixedContentMatch_def)
    show ?thesis
    proof (cases "inFolder t \<and> parentName (utils E) fsPath = fst entry")
      case True
      then show ?thesis
        using later mm
        by (simp add: determineTypeId_def determineTypeId_spec_def mixedContentLoop_find f g
            type_inFolder_def falsy_def Let_def)
    next
      case False
      then show ?thesis
        using mm tne
        by (auto simp: determineTypeId_def determineTypeId_spec_def mixedContentLoop_find f g
            type_inFolder_def falsy_def optionToJs_def Let_def)
    qed
  qed
qed

text \<open>The descriptor of a class, by its suffix; a content file of a bundle, by the directory.\<close>

lemma determineTypeId_first_match_example:
  "determineTypeId (exampleEnv (\<lambda>p. False)) ''classes/Foo.cls-meta.xml''
     = Inr (Value ''apexclass'')
   \<and> determineTypeId_spec (exampleEnv (\<lambda>p. False)) ''classes/Foo.cls-meta.xml''
     = Some ''apexclass''
   \<and> determineTypeId (exampleEnv (\<lambda>p. False)) ''lwc/cmp/cmp.css'' = Inr (Value ''bundle'')
   \<and> determineTypeId_spec (exampleEnv (\<lambda>p. False)) ''lwc/cmp/cmp.css'' = Some ''bundle''"
proof -
  have a: "determineTypeId (exampleEnv (\<lambda>p. False)) ''classes/Foo.cls-meta.xml''
           = Inr (Value ''apexclass'')"
    by (simp add: path_simps example_simps)
  have b: "determineTypeId (exampleEnv (\<lambda>p. False)) ''lwc/cmp/cmp.css'' = Inr (Value ''bundle'')"
    by (simp add: path_simps example_simps Bundle_def)
  have ne: "typeIdsNonEmpty (data (exampleEnv (\<lambda>p. False)))"
    by (simp add: typeIdsNonEmpty_def exampleEnv_def exampleRegistry_def)
  have reg: "mixedContentRegistered (data (exampleEnv (\<lambda>p. False)))"
    by (simp add: mixedContentRegistered_def exampleEnv_def exampleRegistry_def
        toLowerCase_def toLowerCase_char_def removeSpaces_def)
  have one: "length (registeredSegments (exampleEnv (\<lambda>p. False)) ''classes/Foo.cls-meta.xml'') \<le> 1"
    "length (registeredSegments (exampleEnv (\<lambda>p. False)) ''lwc/cmp/cmp.css'') \<le> 1"
    by (simp_all add: registeredSegments_def exampleEnv_def exampleRegistry_def sep_def)
  have plain: "suffixKeysPlain (exampleEnv (\<lambda>p. False)) ''classes/Foo.cls-meta.xml''"
    "suffixKeysPlain (exampleEnv (\<lambda>p. False)) ''lwc/cmp/cmp.css''"
    by (simp_all add: suffixKeysPlain_def ownOrAbsent_def path_simps example_simps)
  from determineTypeId_first_match[OF ne reg one(1) plain(1)]
       determineTypeId_first_match[OF ne reg one(2) plain(2)] a b
  show ?thesis by (simp add: optionToJs_def split: option.splits)
qed

text \<open>
  C5 at a file whose extension names an inherited member of the suffix table. The file
  \<open>classes/Foo.constructor\<close> lies in no mixed-content directory, is no descriptor, and
  the suffix table has no entry \<open>constructor\<close>: no strategy matches. The code reads
  \<open>this.data.suffixes['constructor']\<close>, gets the member the table object inherits from
  \<open>Object.prototype\<close>, and returns it as the type id. The callers take it for a type id:
  resolving the file raises a \<open>TypeError\<close>, not the could-not-infer-type error of a
  path without a type.
\<close>

theorem determineTypeId_returns_inherited_member:
  "mixedContentMatch (exampleEnv (\<lambda>p. False)) ''classes/Foo.constructor'' = None
   \<and> descriptorSuffixMatch (exampleEnv (\<lambda>p. False)) ''classes/Foo.constructor'' = None
   \<and> rawExtensionMatch (exampleEnv (\<lambda>p. False)) ''classes/Foo.constructor'' = None
   \<and> determineTypeId (exampleEnv (\<lambda>p. False)) ''classes/Foo.constructor''
       = Inr (Alien ''constructor'')
   \<and> getComponentsFromPath (Suc 0) (exampleEnv (\<lambda>p. False)) ''classes/Foo.constructor''
       = Some (Inl TypeError)"
  by (simp add: mixedContentMatch_def registeredSegments_def descriptorSuffixMatch_def
      rawExtensionMatch_def getComponentsFromPath_def fetchList_def
      path_simps example_simps)


subsection \<open>The descriptor of a content path\<close>

lemma findIndex_takeWhile:
  "x \<in> set ps \<Longrightarrow> findIndex (\<lambda>p. p = x) ps = int (length (takeWhile (\<lambda>p. p \<noteq> x) ps))"
  by (induction ps) (auto simp: Let_def)

lemma slice0_findIndex:
  assumes "x \<in> set ps"
  shows "slice0 ps (findIndex (\<lambda>p. p = x) ps + int k)
       = takeWhile (\<lambda>p. p \<noteq> x) ps @ take k (dropWhile (\<lambda>p. p \<noteq> x) ps)"
proof -
  let ?tw = "takeWhile (\<lambda>p. p \<noteq> x) ps" and ?dw = "dropWhile (\<lambda>p. p \<noteq> x) ps"
  have "slice0 ps (findIndex (\<lambda>p. p = x) ps + int k) = take (length ?tw + k) ps"
    using findIndex_takeWhile[OF assms] by (simp add: slice0_def nat_add_distrib)
  also have "\<dots> = take (length ?tw + k) (?tw @ ?dw)" by simp
  also have "\<dots> = ?tw @ take k ?dw" by (simp only: take_append) simp
  finally show ?thesis .
qed

lemma rootContentPath_eq:
  assumes "directoryName type \<in> set (split sep contentPath)"
  shows "joinWith sep (slice0 (split sep contentPath)
            (findIndex (\<lambda>part. Value part = type_directoryName (Value type)) (split sep contentPath)
             + (if type_inFolder (Value type) then 3 else 2)))
         = typeRootedPath contentPath type"
proof (cases "inFolder type")
  case True
  then show ?thesis
    using slice0_findIndex[OF assms, of 3]
    by (simp add: typeRootedPath_def Let_def type_directoryName_def type_inFolder_def)
next
  case False
  then show ?thesis
    using slice0_findIndex[OF assms, of 2]
    by (simp add: typeRootedPath_def Let_def type_directoryName_def type_inFolder_def)
qed


lemma find_none: "\<forall>y \<in> set xs. \<not> P y \<Longrightarrow> List.find P xs = None"
  by (induction xs) auto

lemma findXmlFromContentPath_root:
  assumes "directoryName type \<in> set (split sep contentPath)"
  shows "findXmlFromContentPath U container contentPath (Value type)
           = findMetadataXml U container (dirname (typeRootedPath contentPath type))
               (baseName U (typeRootedPath contentPath type))"
  unfolding findXmlFromContentPath_def Let_def rootContentPath_eq[OF assms] by (rule refl)

lemma findMetadataXml_descriptorFor:
  "findMetadataXml U container dir base =
     (case readDir container dir of
        Inl e \<Rightarrow> Inl e
      | Inr names \<Rightarrow>
          (case List.find (descriptorFor U dir base) names of
             None \<Rightarrow> Inr None
           | Some fileName \<Rightarrow> if fileName \<noteq> [] then Inr (Some (join dir fileName)) else Inr None))"
proof -
  have eq: "(\<lambda>f. let parsed = parseMetadataXml U (join dir f);
                     metaXmlCondition = (if True then parsed \<noteq> None else parsed = None)
                 in prefix base f \<and> metaXmlCondition) = descriptorFor U dir base"
    by (rule ext) (simp add: descriptorFor_def Let_def)
  show ?thesis unfolding findMetadataXml_def find_in_def eq by (rule refl)
qed




text \<open>
  When no listed name is such a descriptor nothing is found, and an error of the
  listing is the error of the call.
\<close>

lemma findXmlFromContentPath_no_descriptor:
  assumes "directoryName type \<in> set (split sep contentPath)"
    and "readDir container (dirname (typeRootedPath contentPath type)) = Inr names"
    and "\<forall>f \<in> set names. \<not> descriptorFor U (dirname (typeRootedPath contentPath type))
           (baseName U (typeRootedPath contentPath type)) f"
  shows "findXmlFromContentPath U container contentPath (Value type) = Inr None"
proof -
  let ?dir = "dirname (typeRootedPath contentPath type)"
  let ?base = "baseName U (typeRootedPath contentPath type)"
  have "List.find (descriptorFor U ?dir ?base) names = None"
    using assms(3) by (rule find_none)
  then show ?thesis
    using assms(2)
    by (simp add: findXmlFromContentPath_root[OF assms(1)] findMetadataXml_descriptorFor)
qed

lemma findXmlFromContentPath_readDir_error:
  assumes "directoryName type \<in> set (split sep contentPath)"
    and "readDir container (dirname (typeRootedPath contentPath type)) = Inl e"
  shows "findXmlFromContentPath U container contentPath (Value type) = Inl e"
  using assms(2)
  by (simp add: findXmlFromContentPath_root[OF assms(1)] findMetadataXml_def find_in_def)


subsection \<open>Denied paths\<close>




section \<open>Properties: paths that do not exist\<close>

lemma path_not_found:
  "exists (fileContainer E) fsPath = Inr False \<Longrightarrow>
   getComponentsFromPath n E fsPath = Some (Inl (error_path_not_found fsPath))"
  by (simp add: getComponentsFromPath_def)

lemma local_path_not_found:
  "fileContainer E = LocalFileContainer fs \<Longrightarrow> fs fsPath = None \<Longrightarrow>
   getComponentsFromPath n E fsPath = Some (Inl (error_path_not_found fsPath))"
  by (simp add: getComponentsFromPath_def exists_def)

text \<open>
  C9 at the remote listing. \<open>lwc/cmp.js\<close> is not in the tree, and neither is its parent
  directory \<open>lwc\<close>: \<open>exists\<close> calls \<open>has\<close> on \<open>undefined\<close>, and resolution raises a
  \<open>TypeError\<close>, not the path-not-found error. (\<open>classes/Bar.cls\<close>, absent from a
  listed directory, raises path-not-found.)
\<close>

theorem github_missing_path_is_TypeError:
  "map_of exampleTree ''lwc/cmp.js'' = None
   \<and> ''lwc/cmp.js'' \<notin> set (concat (map snd exampleTree))
   \<and> getComponentsFromPath (Suc 0) githubEnv ''lwc/cmp.js'' = Some (Inl TypeError)
   \<and> getComponentsFromPath (Suc 0) githubEnv ''classes/Bar.cls''
       = Some (Inl (error_path_not_found ''classes/Bar.cls''))"
  by (simp add: getComponentsFromPath_def githubEnv_def exampleTree_def exists_def dirname_def
      sep_def Let_def)

section \<open>Properties: the manifest round trip\<close>

lemma registry_okD:
  assumes "registry_ok reg" and "map_of (types reg) k = Some t"
  shows "registered reg t"
    and "folderType t = Some f \<Longrightarrow> f \<noteq> [] \<Longrightarrow>
         \<exists>tf c. map_of (types reg) (toLowerCase f) = Some tf \<and> folderContentType tf = Some c
                \<and> c \<noteq> [] \<and> map_of (types reg) (toLowerCase c) = Some t"
    and "folderContentType t = Some c \<Longrightarrow> c \<noteq> [] \<Longrightarrow>
         map_of (types reg) (toLowerCase c) = Some t' \<Longrightarrow> noContentType t'"
proof -
  from assms(2) have "(k, t) \<in> set (types reg)" by (rule map_of_SomeD)
  with assms(1) have *: "type_ok reg t"
    by (auto simp: registry_ok_def list_all_iff)
  from * show "registered reg t" by (simp add: type_ok_def)
  from * show "folderType t = Some f \<Longrightarrow> f \<noteq> [] \<Longrightarrow>
         \<exists>tf c. map_of (types reg) (toLowerCase f) = Some tf \<and> folderContentType tf = Some c
                \<and> c \<noteq> [] \<and> map_of (types reg) (toLowerCase c) = Some t"
    by (auto simp: type_ok_def split: option.splits)
  from * show "folderContentType t = Some c \<Longrightarrow> c \<noteq> [] \<Longrightarrow>
         map_of (types reg) (toLowerCase c) = Some t' \<Longrightarrow> noContentType t'"
    by (auto simp: type_ok_def split: option.splits)
qed

lemma getTypeByName_Inr:
  "getTypeByName reg nm = Inr t \<longleftrightarrow> map_of (types reg) (toLowerCase nm) = Some t"
  by (auto simp: getTypeByName_def Let_def split: option.splits)

lemma filed_step:
  assumes ok: "registry_ok reg"
    and t0: "getTypeByName reg typeId = Inr type0"
    and t1: "(case folderContentType type0 of
                None \<Rightarrow> Inr type0
              | Some contentType \<Rightarrow>
                  if contentType \<noteq> [] then getTypeByName reg contentType else Inr type0) = Inr type1"
  shows "filed reg (type_name type1)"
proof -
  from t0 have r0: "map_of (types reg) (toLowerCase typeId) = Some type0"
    by (simp add: getTypeByName_Inr)
  show ?thesis
  proof (cases "noContentType type0")
    case True
    with t1 have "type1 = type0" by (auto simp: noContentType_def)
    with True registry_okD(1)[OF ok r0] show ?thesis
      by (auto simp: filed_def registered_def)
  next
    case False
    then obtain c where c: "folderContentType type0 = Some c" "c \<noteq> []"
      by (auto simp: noContentType_def)
    with t1 have r1: "map_of (types reg) (toLowerCase c) = Some type1"
      by (simp add: getTypeByName_Inr)
    from registry_okD(3)[OF ok r0 c r1] have "noContentType type1" .
    with registry_okD(1)[OF ok r1] show ?thesis
      by (auto simp: filed_def registered_def)
  qed
qed

lemma typeMap_ok_push:
  assumes "typeMap_ok reg tm" and "filed reg n"
  shows "typeMap_ok reg
           (case map_of (if map_of tm n = None then AList.update n [] tm else tm) n of
              Some ms \<Rightarrow> AList.update n (ms @ [Value fn])
                           (if map_of tm n = None then AList.update n [] tm else tm)
            | None \<Rightarrow> (if map_of tm n = None then AList.update n [] tm else tm))"
proof (cases "map_of tm n")
  case None
  then have "AList.update n [Value fn] (AList.update n [] tm) = AList.update n [Value fn] tm"
    by simp
  moreover have "typeMap_ok reg (AList.update n [Value fn] tm)"
    using assms unfolding typeMap_ok_def by (intro list_all_update) (auto simp: isString_def)
  ultimately show ?thesis using None by (simp add: update_conv')
next
  case (Some ms)
  then have "(n, ms) \<in> set tm" by (rule map_of_SomeD)
  with assms(1) have "list_all isString ms" by (auto simp: typeMap_ok_def list_all_iff)
  then have "typeMap_ok reg (AList.update n (ms @ [Value fn]) tm)"
    using assms unfolding typeMap_ok_def by (intro list_all_update) (auto simp: isString_def)
  then show ?thesis using Some by simp
qed

lemma getObject_typeMap_ok:
  assumes ok: "registry_ok reg"
  shows "list_all (\<lambda>key. KEY_DELIMITER \<in> set key) keys \<Longrightarrow> typeMap_ok reg tm \<Longrightarrow>
         getObject_typeMap reg keys tm = Inr tm' \<Longrightarrow> typeMap_ok reg tm'"
proof (induction keys arbitrary: tm)
  case Nil
  then show ?case by simp
next
  case (Cons key keys)
  from Cons.prems(1) have d: "KEY_DELIMITER \<in> set key" by simp
  obtain typeId rest where kf: "keyFields key = (typeId, rest)" by (cases "keyFields key")
  from d have "\<exists>fn. rest = Value fn"
  proof -
    from d obtain a b where "key = a @ KEY_DELIMITER # b" "KEY_DELIMITER \<notin> set a"
      by (meson split_list_first)
    then show ?thesis using kf keyFields_key[of a b] by auto
  qed
  then obtain fn where rest: "rest = Value fn" by auto
  from Cons.prems(3) kf obtain type0 where t0: "getTypeByName reg typeId = Inr type0"
    by (auto split: sum.splits)
  from Cons.prems(3) kf t0 obtain type1 where
    t1: "(case folderContentType type0 of
                None \<Rightarrow> Inr type0
              | Some contentType \<Rightarrow>
                  if contentType \<noteq> [] then getTypeByName reg contentType else Inr type0) = Inr type1"
    by (auto split: sum.splits)
  let ?n = "type_name type1"
  let ?tm1 = "if map_of tm ?n = None then AList.update ?n [] tm else tm"
  let ?tm2 = "case map_of ?tm1 ?n of
                Some ms \<Rightarrow> AList.update ?n (ms @ [Value fn]) ?tm1 | None \<Rightarrow> ?tm1"
  have step: "getObject_typeMap reg (key # keys) tm = getObject_typeMap reg keys ?tm2"
    using kf t0 t1 rest by (simp add: Let_def)
  have a: "typeMap_ok reg ?tm2"
    by (rule typeMap_ok_push[OF Cons.prems(2) filed_step[OF ok t0 t1]])
  from Cons.prems(1) have b: "list_all (\<lambda>key. KEY_DELIMITER \<in> set key) keys" by simp
  from Cons.prems(3) step have c: "getObject_typeMap reg keys ?tm2 = Inr tm'" by simp
  show ?case by (rule Cons.IH[OF b a c])
qed


lemma arrayOf_toXmlValue: "xs \<noteq> [] \<Longrightarrow> arrayOf (toXmlValue xs) = xs"
  by (auto simp: arrayOf_def toXmlValue_def split: list.splits)

text \<open>Members that are strings are all written, and read back as they are when every text is.\<close>

lemma writtenMembers_read:
  "list_all isString ms \<Longrightarrow> list_all (\<lambda>s. readText s = Value s) (writtenMembers ms) \<Longrightarrow>
   map readText (writtenMembers ms) = ms"
proof (induction ms)
  case Nil
  then show ?case by (simp add: writtenMembers_def)
next
  case (Cons a ms)
  then show ?case
    by (cases a) (auto simp: writtenMembers_def isString_def)
qed

lemma membersLoop_pairs:
  assumes ok: "registry_ok reg" and f: "filed reg n"
  shows "list_all isString ms \<Longrightarrow>
         \<exists>comps. membersLoop reg (Value n) ms = Inr comps
                \<and> map (componentPair reg) comps = map (\<lambda>m. (Inr n, m)) ms"
proof (induction ms)
  case Nil
  then show ?case by simp
next
  case (Cons m ms)
  from Cons.prems obtain fn where m: "m = Value fn" by (cases m) (auto simp: isString_def)
  from Cons.prems Cons.IH obtain rest where
    rest: "membersLoop reg (Value n) ms = Inr rest"
      "map (componentPair reg) rest = map (\<lambda>m. (Inr n, m)) ms"
    by auto
  from f obtain t where t: "map_of (types reg) (toLowerCase n) = Some t" "type_name t = n"
    "noContentType t"
    by (auto simp: filed_def)
  have g: "getTypeByName reg n = Inr t" using t(1) by (simp add: getTypeByName_Inr)
  have own: "manifestTypeName reg t = Inr n"
    using t(2,3) by (auto simp: manifestTypeName_def noContentType_def)
  show ?case
  proof (cases "\<exists>folder. folderType t = Some folder \<and> folder \<noteq> [] \<and> CHR ''/'' \<notin> set fn")
    case True
    then obtain folder where fo: "folderType t = Some folder" "folder \<noteq> []"
      "CHR ''/'' \<notin> set fn" by auto
    from registry_okD(2)[OF ok t(1) fo(1,2)] obtain tf c where
      tf: "map_of (types reg) (toLowerCase folder) = Some tf" "folderContentType tf = Some c"
        "c \<noteq> []" "map_of (types reg) (toLowerCase c) = Some t"
      by auto
    have gf: "getTypeByName reg folder = Inr tf" using tf(1) by (simp add: getTypeByName_Inr)
    have "manifestTypeName reg tf = Inr n"
      using tf(2,3,4) t(2) by (simp add: manifestTypeName_def getTypeByName_def)
    then have cp: "componentPair reg (AbstractComponent (Value fn) tf) = (Inr n, Value fn)"
      by (simp add: componentPair_def)
    have "membersLoop reg (Value n) (m # ms) = Inr (AbstractComponent (Value fn) tf # rest)"
      using g gf fo rest(1) m by simp
    then show ?thesis using cp rest(2) m by simp
  next
    case False
    then have "membersLoop reg (Value n) (m # ms) = Inr (AbstractComponent (Value fn) t # rest)"
      using g rest(1) m by (auto split: option.splits)
    moreover have "componentPair reg (AbstractComponent (Value fn) t) = (Inr n, Value fn)"
      using own by (simp add: componentPair_def)
    ultimately show ?thesis using rest(2) m by simp
  qed
qed

lemma typeMembersLoop_pairs:
  assumes ok: "registry_ok reg"
  shows "list_all (\<lambda>b. ptm_members b \<noteq> [] \<and> list_all isString (ptm_members b)
                       \<and> filed reg (ptm_name b)
                       \<and> readText (ptm_name b) = Value (ptm_name b)
                       \<and> list_all (\<lambda>s. readText s = Value s) (writtenMembers (ptm_members b)))
           blocks \<Longrightarrow>
         \<exists>comps. typeMembersLoop reg
                   (map (\<lambda>b. Value \<lparr>parsed_members =
                                        toXmlValue (map readText (writtenMembers (ptm_members b))),
                                     parsed_name = readText (ptm_name b)\<rparr>) blocks) = Inr comps
                \<and> map (componentPair reg) comps
                    = concat (map (\<lambda>b. map (\<lambda>m. (Inr (ptm_name b), m)) (ptm_members b)) blocks)"
proof (induction blocks)
  case Nil
  then show ?case by simp
next
  case (Cons b blocks)
  from Cons.prems have b: "ptm_members b \<noteq> []" "list_all isString (ptm_members b)"
    "filed reg (ptm_name b)" "readText (ptm_name b) = Value (ptm_name b)"
    "list_all (\<lambda>s. readText s = Value s) (writtenMembers (ptm_members b))" by auto
  from Cons.prems Cons.IH obtain rest where
    rest: "typeMembersLoop reg
                   (map (\<lambda>b. Value \<lparr>parsed_members =
                                        toXmlValue (map readText (writtenMembers (ptm_members b))),
                                     parsed_name = readText (ptm_name b)\<rparr>) blocks) = Inr rest"
      "map (componentPair reg) rest
         = concat (map (\<lambda>b. map (\<lambda>m. (Inr (ptm_name b), m)) (ptm_members b)) blocks)"
    by auto
  have rd: "map readText (writtenMembers (ptm_members b)) = ptm_members b"
    using writtenMembers_read[OF b(2,5)] .
  have arr: "arrayOf (toXmlValue (map readText (writtenMembers (ptm_members b)))) = ptm_members b"
    unfolding rd using arrayOf_toXmlValue[OF b(1)] .
  from membersLoop_pairs[OF ok b(3) b(2)] obtain xs where
    xs: "membersLoop reg (Value (ptm_name b)) (ptm_members b) = Inr xs"
      "map (componentPair reg) xs = map (\<lambda>m. (Inr (ptm_name b), m)) (ptm_members b)"
    by auto
  show ?case using rest xs arr b(4) by simp
qed

lemma getObject_typeMap_nonempty:
  "getObject_typeMap reg keys tm = Inr tm' \<Longrightarrow> tm \<noteq> [] \<or> keys \<noteq> [] \<Longrightarrow> tm' \<noteq> []"
proof (induction keys arbitrary: tm)
  case Nil
  then show ?case by simp
next
  case (Cons key keys)
  obtain typeId rest where kf: "keyFields key = (typeId, rest)" by (cases "keyFields key")
  from Cons.prems(1) kf obtain type0 where t0: "getTypeByName reg typeId = Inr type0"
    by (auto split: sum.splits)
  from Cons.prems(1) kf t0 obtain type1 where
    t1: "(case folderContentType type0 of
                None \<Rightarrow> Inr type0
              | Some contentType \<Rightarrow>
                  if contentType \<noteq> [] then getTypeByName reg contentType else Inr type0) = Inr type1"
    by (auto split: sum.splits)
  let ?n = "type_name type1"
  let ?tm1 = "if map_of tm ?n = None then AList.update ?n [] tm else tm"
  let ?tm2 = "case map_of ?tm1 ?n of
                Some ms \<Rightarrow> AList.update ?n (ms @ [rest]) ?tm1 | None \<Rightarrow> ?tm1"
  have step: "getObject_typeMap reg (key # keys) tm = getObject_typeMap reg keys ?tm2"
    using kf t0 t1 by (simp add: Let_def)
  have "?tm2 \<noteq> []" by (auto simp: update_conv' split: option.splits)
  with Cons.IH[of ?tm2 ] Cons.prems(1) step show ?case by simp
qed

lemma simpleKey_delimiter: "KEY_DELIMITER \<in> set (simpleKey c)"
  by (cases c) (auto simp: simpleKey_def split: TypeRef.splits)

lemma keys_ComponentSet: "set (map fst (ComponentSet cs)) = simpleKey ` set cs"
proof -
  have "wf_map []" by (simp add: wf_map_def)
  from foldl_add_abs[OF this, of cs, folded ComponentSet_def]
  have "outerKeys (ComponentSet cs) = simpleKey ` set cs" by (simp add: outerKeys_def)
  then show ?thesis by (simp add: outerKeys_def dom_map_of_conv_image_fst)
qed

text \<open>
  The round trip of a set that is not empty, over a registry as above, when the parser
  returns every text of the manifest (type names and members) as the string written:
  parsing the serialized manifest succeeds and gives, in order, one component per member,
  filed under the type name of the member's block. (A name the parser trims, or reads
  as a number or a boolean, does not come back as written.)
\<close>

lemma manifest_round_trip:
  assumes ok: "registry_ok reg" and ne: "cs \<noteq> []"
    and obj: "getObject reg version (ComponentSet cs) = Inr obj"
    and texts: "list_all (\<lambda>s. readText s = Value s) (manifestTexts obj)"
  shows "\<exists>comps. getComponentsFromManifestObject reg (xmlRoundTrip readText obj) = Inr comps
               \<and> map (componentPair reg) comps = memberPairs obj"
proof -
  from obj obtain tm where
    tm: "getObject_typeMap reg (map fst (ComponentSet cs)) [] = Inr tm"
    and o: "obj = \<lparr>Package_types = map (\<lambda>(typeName, ms). \<lparr>ptm_members = ms, ptm_name = typeName\<rparr>) tm,
                   Package_version = version\<rparr>"
    by (auto simp: getObject_def split: sum.splits)
  have keys: "list_all (\<lambda>key. KEY_DELIMITER \<in> set key) (map fst (ComponentSet cs))"
    using keys_ComponentSet[of cs] simpleKey_delimiter by (auto simp: list_all_iff)
  have "map fst (ComponentSet cs) \<noteq> []"
    using keys_ComponentSet[of cs] ne by auto
  with getObject_typeMap_nonempty[OF tm] have tm_ne: "tm \<noteq> []" by simp
  have "typeMap_ok reg []" by (simp add: typeMap_ok_def)
  from getObject_typeMap_ok[OF ok keys this tm] have tmok: "typeMap_ok reg tm" .
  let ?blocks = "Package_types obj"
  have shape: "list_all (\<lambda>b. ptm_members b \<noteq> [] \<and> list_all isString (ptm_members b)
                             \<and> filed reg (ptm_name b)) ?blocks"
    using tmok by (auto simp: o typeMap_ok_def list_all_iff)
  have read: "list_all (\<lambda>b. readText (ptm_name b) = Value (ptm_name b)
                 \<and> list_all (\<lambda>s. readText s = Value s) (writtenMembers (ptm_members b))) ?blocks"
    using texts by (auto simp: manifestTexts_def list_all_iff)
  have blocks: "list_all (\<lambda>b. ptm_members b \<noteq> [] \<and> list_all isString (ptm_members b)
                       \<and> filed reg (ptm_name b)
                       \<and> readText (ptm_name b) = Value (ptm_name b)
                       \<and> list_all (\<lambda>s. readText s = Value s) (writtenMembers (ptm_members b)))
                  ?blocks"
    using shape read by (simp add: list_all_iff)
  have bne: "?blocks \<noteq> []" using tm_ne by (simp add: o)
  from typeMembersLoop_pairs[OF ok blocks] obtain comps where
    comps: "typeMembersLoop reg
                   (map (\<lambda>b. Value \<lparr>parsed_members =
                                        toXmlValue (map readText (writtenMembers (ptm_members b))),
                                     parsed_name = readText (ptm_name b)\<rparr>) ?blocks) = Inr comps"
      "map (componentPair reg) comps
         = concat (map (\<lambda>b. map (\<lambda>m. (Inr (ptm_name b), m)) (ptm_members b)) ?blocks)"
    by auto
  have "getComponentsFromManifestObject reg (xmlRoundTrip readText obj) = Inr comps"
    using comps(1) bne
    by (simp add: getComponentsFromManifestObject_def xmlRoundTrip_def arrayOf_toXmlValue comp_def)
  with comps(2) show ?thesis by (auto simp: memberPairs_def)
qed


lemma registry_ok_example: "registry_ok exampleRegistry"
  by (simp add: registry_ok_def type_ok_def registered_def noContentType_def exampleRegistry_def
      ApexClass_def Layout_def StaticResource_def Bundle_def Document_def DocumentFolder_def
      CustomObject_def CustomField_def toLowerCase_def toLowerCase_char_def)


text \<open>
  A class, a document folder and a document in it, with names the parser reads as
  written: the folder is filed under its content type \<open>Document\<close> and read back as a
  folder, its name holding no \<open>/\<close>.
\<close>

lemma manifest_round_trip_example:
  "getObject exampleRegistry ''50.0''
     (ComponentSet [Plain ''Foo'' (TypeObject ApexClass),
                    Plain ''docs'' (TypeObject DocumentFolder),
                    Plain ''docs/readme'' (TypeObject Document)])
     = Inr \<lparr>Package_types =
              [\<lparr>ptm_members = [Value ''Foo''], ptm_name = ''ApexClass''\<rparr>,
               \<lparr>ptm_members = [Value ''docs'', Value ''docs/readme''], ptm_name = ''Document''\<rparr>],
            Package_version = ''50.0''\<rparr>
   \<and> getComponentsFromManifestObject exampleRegistry
       (xmlRoundTrip Value
          \<lparr>Package_types =
              [\<lparr>ptm_members = [Value ''Foo''], ptm_name = ''ApexClass''\<rparr>,
               \<lparr>ptm_members = [Value ''docs'', Value ''docs/readme''], ptm_name = ''Document''\<rparr>],
            Package_version = ''50.0''\<rparr>)
     = Inr [AbstractComponent (Value ''Foo'') ApexClass,
            AbstractComponent (Value ''docs'') DocumentFolder,
            AbstractComponent (Value ''docs/readme'') Document]"
  by (simp add: getObject_def ComponentSet_def add_def simpleKey_def keyFields_def
      KEY_DELIMITER_def getTypeByName_def exampleRegistry_def
      getComponentsFromManifestObject_def xmlRoundTrip_def toXmlValue_def arrayOf_def
      writtenMembers_def toLowerCase_def toLowerCase_char_def
      ApexClass_def Document_def DocumentFolder_def)

text \<open>
  C6 at the empty set. Its manifest object has no type block, so the serialized manifest
  has no \<open>types\<close> element and the parsed object none either, whatever the parser makes
  of a text; parsing wraps the \<open>undefined\<close> into an array and fails on destructuring it.
\<close>

theorem manifest_of_empty_set_fails_to_parse:
  "getObject exampleRegistry (apiVersion exampleRegistry) (ComponentSet [])
     = Inr \<lparr>Package_types = [], Package_version = ''50.0''\<rparr>
   \<and> getComponentsFromManifestObject exampleRegistry
       (xmlRoundTrip readText \<lparr>Package_types = [], Package_version = ''50.0''\<rparr>) = Inl TypeError"
  by (simp add: getObject_def ComponentSet_def exampleRegistry_def
      getComponentsFromManifestObject_def xmlRoundTrip_def toXmlValue_def arrayOf_def)

end
